theory Spec2Isabelle
  imports Main
begin

section \<open>The etcd v3 cluster check (check\_etcd\_v3\_cluster.py)\<close>

text \<open>
  A shallow embedding of the Nagios plugin \<^verbatim>\<open>check_etcd_v3_cluster.py\<close>: the member
  listing, the health probe with its two output formats, the reconciliation of health
  entries with members, the threshold evaluation and the exit status of the script.

  Conventions of the model:
  \<^item> An exception is a value of type \<open>exn\<close>; a function that may raise returns
    \<open>exn + 'a\<close>, with \<open>Inl\<close> for the exception.
  \<^item> The bytes of a pipe and the text decoded from them are both \<open>string\<close>. A
    character of decoded text stands for one code point below 256; text with higher code
    points is not represented.
  \<^item> What the script gets from outside (the lookup of the \<^verbatim>\<open>etcdctl\<close> binary, the
    two runs of it, \<^verbatim>\<open>json.loads\<close> and the UTF-8 decoder) is the record \<open>world\<close>.
  \<^item> JSON numbers are integers; a JSON object is an association list that stands for a
    Python dict (read with \<open>map_of\<close>).
  \<^item> The texts of the interpreter's own exceptions are those of CPython 3.11 to 3.13.
\<close>

subsection \<open>Data\<close>

datatype json =
    JNull
  | JBool bool
  | JInt int
  | JStr string
  | JArr "json list"
  | JObj "(string \<times> json) list"

text \<open>
  The two named tuples. The field \<^verbatim>\<open>id\<close> is called \<open>member_id\<close>, since \<open>id\<close>
  is the identity function of HOL. \<^verbatim>\<open>V3ClusterMemberHealth\<close> repeats the four fields of
  \<^verbatim>\<open>V3ClusterMember\<close> and adds three, which is a record extension here.

  Python checks none of the annotations, so a field holds whatever \<^verbatim>\<open>json.loads\<close>
  produced. The fields \<^verbatim>\<open>id\<close>, \<^verbatim>\<open>client_urls\<close>, \<^verbatim>\<open>health\<close>, \<^verbatim>\<open>took\<close> and
  \<^verbatim>\<open>error\<close> are only stored, compared with \<^verbatim>\<open>True\<close> and \<^verbatim>\<open>False\<close>, and
  printed: they are JSON values here. The fields \<^verbatim>\<open>name\<close> and \<^verbatim>\<open>peer_urls\<close> are
  typed as annotated (\<^verbatim>\<open>str\<close>, \<^verbatim>\<open>List[str]\<close>); see \<open>member_of_json\<close> for what
  that leaves out.
\<close>

record V3ClusterMember =
  member_id :: json
  name :: string
  peer_urls :: "string list"
  client_urls :: json

record V3ClusterMemberHealth = V3ClusterMember +
  health :: json
  took :: json
  error :: json

text \<open>
  The exceptions: the three Nagios states, each with its message and its optional
  \<^verbatim>\<open>multiline\<close> attribute, and the exceptions of the interpreter and of the library that
  the script can meet, each with the text that \<^verbatim>\<open>str(exc)\<close> gives (for \<open>KeyError\<close>
  the key itself, which \<^verbatim>\<open>str\<close> prints quoted).
\<close>

datatype exn =
    NagiosOk string "string option"
  | NagiosWarning string "string option"
  | NagiosCritical string "string option"
  | AssertionError string
  | NameError string
  | KeyError string
  | TypeError string
  | IndexError string
  | AttributeError string
  | JSONDecodeError string
  | UnicodeDecodeError string

text \<open>A finished run of a command: \<^verbatim>\<open>subprocess.CompletedProcess\<close>.\<close>

record completed =
  returncode :: int
  stdout :: string
  stderr :: string

text \<open>
  The outside of the script. \<open>which_etcdctl\<close> is \<^verbatim>\<open>shutil.which("etcdctl")\<close>;
  \<open>run\<close> gives, for an argument vector, the finished process (for the member listing,
  which is run with \<^verbatim>\<open>stderr=subprocess.STDOUT\<close>, \<open>stdout\<close> holds both streams);
  \<open>json_loads\<close> is \<^verbatim>\<open>json.loads\<close> on bytes, with the exception it raises;
  \<open>utf8_decode\<close> is \<^verbatim>\<open>str(b, "utf-8")\<close>, \<open>None\<close> when it raises
  \<^verbatim>\<open>UnicodeDecodeError\<close>, and \<open>utf8_reason\<close> is then the text of that exception.
  A failure to start the process is not modelled.
\<close>

record world =
  which_etcdctl :: "string option"
  run :: "string list \<Rightarrow> completed"
  json_loads :: "string \<Rightarrow> exn + json"
  utf8_decode :: "string \<Rightarrow> string option"
  utf8_reason :: "string \<Rightarrow> string"

subsection \<open>Python's string operations\<close>

definition andThen :: "exn + 'a \<Rightarrow> ('a \<Rightarrow> exn + 'b) \<Rightarrow> exn + 'b" where
  "andThen m f = (case m of Inl e \<Rightarrow> Inl e | Inr v \<Rightarrow> f v)"

text \<open>\<^verbatim>\<open>sep.join(xs)\<close>.\<close>

fun join :: "string \<Rightarrow> string list \<Rightarrow> string" where
  "join sep [] = []"
| "join sep [x] = x"
| "join sep (x # y # ys) = x @ sep @ join sep (y # ys)"

text \<open>The decimal text of an integer, as \<^verbatim>\<open>%s\<close> and \<^verbatim>\<open>%d\<close> print it.\<close>

definition digit :: "nat \<Rightarrow> char" where
  "digit d = char_of (of_char (CHR ''0'') + d)"

fun str_nat :: "nat \<Rightarrow> string" where
  "str_nat n = (if n < 10 then [digit n] else str_nat (n div 10) @ [digit (n mod 10)])"

declare str_nat.simps [simp del]

definition str_int :: "int \<Rightarrow> string" where
  "str_int i = (if i < 0 then CHR ''-'' # str_nat (nat (- i)) else str_nat (nat i))"

text \<open>
  \<^verbatim>\<open>repr(s)\<close> of a string: double quotes when the string holds a single quote and no
  double quote, single quotes otherwise; the quote and the backslash are escaped, tab,
  line feed and carriage return are written with their letter, and the other characters
  that are not printable (below 32, 127 to 160, and 173) as a backslash, \<^verbatim>\<open>x\<close> and two
  hexadecimal digits.
\<close>

definition hexdigit :: "nat \<Rightarrow> char" where
  "hexdigit d = (if d < 10 then digit d else char_of (of_char (CHR ''a'') + (d - 10)))"

definition repr_char :: "char \<Rightarrow> char \<Rightarrow> string" where
  "repr_char quote c =
     (let n = (of_char c :: nat);
          hex = [CHR 0x5C, CHR ''x'', hexdigit (n div 16), hexdigit (n mod 16)]
      in if c = quote \<or> c = CHR 0x5C then [CHR 0x5C, c]
         else if c = CHR 0x09 then [CHR 0x5C, CHR ''t'']
         else if c = CHR 0x0A then [CHR 0x5C, CHR ''n'']
         else if c = CHR 0x0D then [CHR 0x5C, CHR ''r'']
         else if n < 32 \<or> n = 127 then hex
         else if n < 127 then [c]
         else if n \<le> 160 \<or> n = 173 then hex
         else [c])"

definition repr_str :: "string \<Rightarrow> string" where
  "repr_str s =
     (let quote = (if CHR 0x27 \<in> set s \<and> CHR 0x22 \<notin> set s then CHR 0x22 else CHR 0x27)
      in [quote] @ concat (map (repr_char quote) s) @ [quote])"

text \<open>A text between single quotes, as the interpreter's messages name a type.\<close>

definition quoted :: "string \<Rightarrow> string" where
  "quoted s = [CHR 0x27] @ s @ [CHR 0x27]"

text \<open>\<^verbatim>\<open>repr(x)\<close> and \<^verbatim>\<open>str(x)\<close> (which is what \<^verbatim>\<open>"%s" % x\<close> prints) of a JSON value.\<close>

fun py_repr :: "json \<Rightarrow> string" where
  "py_repr JNull = ''None''"
| "py_repr (JBool b) = (if b then ''True'' else ''False'')"
| "py_repr (JInt i) = str_int i"
| "py_repr (JStr s) = repr_str s"
| "py_repr (JArr xs) = ''['' @ join '', '' (map py_repr xs) @ '']''"
| "py_repr (JObj kvs) =
     ''{'' @ join '', '' (map (\<lambda>kv. repr_str (fst kv) @ '': '' @ py_repr (snd kv)) kvs) @ ''}''"

fun py_str :: "json \<Rightarrow> string" where
  "py_str (JStr s) = s"
| "py_str j = py_repr j"

text \<open>\<^verbatim>\<open>type(x).__name__\<close>.\<close>

fun type_name :: "json \<Rightarrow> string" where
  "type_name JNull = ''NoneType''"
| "type_name (JBool b) = ''bool''"
| "type_name (JInt i) = ''int''"
| "type_name (JStr s) = ''str''"
| "type_name (JArr xs) = ''list''"
| "type_name (JObj kvs) = ''dict''"

text \<open>
  \<^verbatim>\<open>str.splitlines()\<close>: a line ends at a line feed, a vertical tab, a form feed, a
  carriage return (with the line feed that follows it, if any), a file, group or record
  separator, or a next-line character; the line ends are dropped, and there is no empty
  last line after a final line end.
\<close>

definition linebreak :: "char \<Rightarrow> bool" where
  "linebreak c = (c \<in> set [CHR 0x0A, CHR 0x0B, CHR 0x0C, CHR 0x0D, CHR 0x1C, CHR 0x1D, CHR 0x1E, CHR 0x85])"

fun splitlines_from :: "string \<Rightarrow> string \<Rightarrow> string list" where
  "splitlines_from cur [] = (if cur = [] then [] else [rev cur])"
| "splitlines_from cur [c] = (if linebreak c then [rev cur] else [rev (c # cur)])"
| "splitlines_from cur (c # d # cs) =
     (if c = CHR 0x0D \<and> d = CHR 0x0A then rev cur # splitlines_from [] cs
      else if linebreak c then rev cur # splitlines_from [] (d # cs)
      else splitlines_from (c # cur) (d # cs))"

definition splitlines :: "string \<Rightarrow> string list" where
  "splitlines s = splitlines_from [] s"

text \<open>\<^verbatim>\<open>str.strip()\<close>: the characters below 256 for which \<^verbatim>\<open>str.isspace\<close> holds.\<close>

definition isspace :: "char \<Rightarrow> bool" where
  "isspace c = (c \<in> set [CHR 0x09, CHR 0x0A, CHR 0x0B, CHR 0x0C, CHR 0x0D, CHR 0x1C, CHR 0x1D,
                          CHR 0x1E, CHR 0x1F, CHR 0x20, CHR 0x85, CHR 0xA0])"

definition strip :: "string \<Rightarrow> string" where
  "strip s = rev (dropWhile isspace (rev (dropWhile isspace s)))"

text \<open>
  \<^verbatim>\<open>[x.strip() for x in str(b, "utf-8").splitlines() if x.strip()]\<close>, on the decoded text.
\<close>

definition stripped_lines :: "string \<Rightarrow> string list" where
  "stripped_lines text = map strip (filter (\<lambda>x. strip x \<noteq> []) (splitlines text))"

text \<open>
  \<^verbatim>\<open>" ".join("%s=%s" % x for x in env.items()) + " " + " ".join(cmd)\<close> with
  \<^verbatim>\<open>env = {"ETCDCTL_API": "3"}\<close>.
\<close>

definition cmd_str :: "string list \<Rightarrow> string" where
  "cmd_str cmd = join '' '' [''ETCDCTL_API'' @ ''='' @ ''3''] @ '' '' @ join '' '' cmd"

subsection \<open>The two patterns of the legacy line format\<close>

text \<open>
  The patterns are matched with \<^verbatim>\<open>re.match\<close> against one line of
  \<^verbatim>\<open>splitlines\<close>, which holds no line feed: there \<^verbatim>\<open>.\<close> matches every character
  and \<^verbatim>\<open>$\<close> only the end of the line. The result is the \<^verbatim>\<open>groupdict()\<close> of the
  match, \<open>None\<close> when there is none.

  \<^verbatim>\<open>^(?P<endpoint>[^ ]+) is (?P<health>healthy):.+took = (?P<took>[^ ]+)$\<close>:
  \<^verbatim>\<open>[^ ]+\<close> followed by a space can only be the whole run of characters before the
  first space, and \<^verbatim>\<open>[^ ]+$\<close> after the space of \<^verbatim>\<open>"took = "\<close> only the whole run
  after the last space; between \<^verbatim>\<open>" is healthy:"\<close> and \<^verbatim>\<open>"took = "\<close> there is at
  least one character (\<^verbatim>\<open>.+\<close>).
\<close>

definition matcher_healthy :: "string \<Rightarrow> (string \<times> string) list option" where
  "matcher_healthy entry =
     (let endpoint = takeWhile (\<lambda>c. c \<noteq> CHR '' '') entry;
          after_endpoint = dropWhile (\<lambda>c. c \<noteq> CHR '' '') entry;
          is_healthy = '' is healthy:'';
          body = drop (length is_healthy) after_endpoint;
          took = rev (takeWhile (\<lambda>c. c \<noteq> CHR '' '') (rev body));
          before_took = take (length body - length took) body;
          took_eq = ''took = ''
      in if endpoint \<noteq> [] \<and> take (length is_healthy) after_endpoint = is_healthy
            \<and> took \<noteq> [] \<and> length took_eq < length before_took
            \<and> drop (length before_took - length took_eq) before_took = took_eq
         then Some [(''endpoint'', endpoint), (''health'', ''healthy''), (''took'', took)]
         else None)"

text \<open>
  \<^verbatim>\<open>^(?P<endpoint>[^ ]+) is (?P<health>unhealthy): (?P<error>.+)$\<close>: the same
  endpoint, the literal text, and a rest of at least one character.
\<close>

definition matcher_unhealthy :: "string \<Rightarrow> (string \<times> string) list option" where
  "matcher_unhealthy entry =
     (let endpoint = takeWhile (\<lambda>c. c \<noteq> CHR '' '') entry;
          after_endpoint = dropWhile (\<lambda>c. c \<noteq> CHR '' '') entry;
          is_unhealthy = '' is unhealthy: '';
          err = drop (length is_unhealthy) after_endpoint
      in if endpoint \<noteq> [] \<and> take (length is_unhealthy) after_endpoint = is_unhealthy \<and> err \<noteq> []
         then Some [(''endpoint'', endpoint), (''health'', ''unhealthy''), (''error'', err)]
         else None)"

subsection \<open>Reading JSON values as Python does\<close>

text \<open>\<^verbatim>\<open>x[k]\<close> with a string key.\<close>

fun getitem :: "json \<Rightarrow> string \<Rightarrow> exn + json" where
  "getitem (JObj kvs) k = (case map_of kvs k of None \<Rightarrow> Inl (KeyError k) | Some v \<Rightarrow> Inr v)"
| "getitem (JArr xs) k = Inl (TypeError ''list indices must be integers or slices, not str'')"
| "getitem (JStr s) k = Inl (TypeError (''string indices must be integers, not '' @ quoted ''str''))"
| "getitem j k = Inl (TypeError (quoted (type_name j) @ '' object is not subscriptable''))"

text \<open>
  \<^verbatim>\<open>for x in j\<close>: the elements of a list, the keys of a dict, the characters of a
  string; the other values are not iterable.
\<close>

fun iter_json :: "json \<Rightarrow> exn + json list" where
  "iter_json (JArr xs) = Inr xs"
| "iter_json (JObj kvs) = Inr (map (\<lambda>kv. JStr (fst kv)) kvs)"
| "iter_json (JStr s) = Inr (map (\<lambda>c. JStr [c]) s)"
| "iter_json j = Inl (TypeError (quoted (type_name j) @ '' object is not iterable''))"

text \<open>
  The two fields that the model types. \<^verbatim>\<open>name\<close> is joined with \<^verbatim>\<open>", ".join\<close>,
  and \<^verbatim>\<open>peer_urls\<close> is indexed, searched and joined; what these operations do depends
  on the type of the value. The model follows them for the annotated types only: where a
  \<^verbatim>\<open>name\<close> that is not a string or a \<^verbatim>\<open>peerURLs\<close> that is not a list of strings
  would be stored, it stops with \<open>TypeError\<close>, although Python stores the value and
  meets its type only later, or never. Every theorem below that depends on a member
  listing takes one whose names and peer URLs have the annotated types.
\<close>

fun expect_str :: "json \<Rightarrow> exn + string" where
  "expect_str (JStr s) = Inr s"
| "expect_str j = Inl (TypeError (''expected str instance, '' @ type_name j @ '' found''))"

fun expect_strs :: "json list \<Rightarrow> exn + string list" where
  "expect_strs [] = Inr []"
| "expect_strs (j # js) =
     (case expect_str j of Inl e \<Rightarrow> Inl e
      | Inr s \<Rightarrow> (case expect_strs js of Inl e \<Rightarrow> Inl e | Inr ss \<Rightarrow> Inr (s # ss)))"

fun expect_str_list :: "json \<Rightarrow> exn + string list" where
  "expect_str_list (JArr xs) = expect_strs xs"
| "expect_str_list j = Inl (TypeError (''expected list instance, '' @ type_name j @ '' found''))"

subsection \<open>get\_v3\_members\_list\<close>

text \<open>
  \<^verbatim>\<open>V3ClusterMember(id=x["ID"], name=x["name"], peer_urls=x["peerURLs"],
  client_urls=x["clientURLs"])\<close>: the four lookups run in this order, each raising
  \<open>KeyError\<close> on a missing key; \<^verbatim>\<open>id\<close> and \<^verbatim>\<open>client_urls\<close> take any value.
\<close>

definition member_of_json :: "json \<Rightarrow> exn + V3ClusterMember" where
  "member_of_json x =
     andThen (getitem x ''ID'') (\<lambda>i.
     andThen (getitem x ''name'') (\<lambda>n.
     andThen (getitem x ''peerURLs'') (\<lambda>p.
     andThen (getitem x ''clientURLs'') (\<lambda>c.
     andThen (expect_str n) (\<lambda>n'.
     andThen (expect_str_list p) (\<lambda>p'.
       Inr \<lparr>member_id = i, name = n', peer_urls = p', client_urls = c\<rparr>))))))"

fun members_of_json :: "json list \<Rightarrow> exn + V3ClusterMember list" where
  "members_of_json [] = Inr []"
| "members_of_json (x # xs) =
     (case member_of_json x of Inl e \<Rightarrow> Inl e
      | Inr m \<Rightarrow> (case members_of_json xs of Inl e \<Rightarrow> Inl e | Inr ms \<Rightarrow> Inr (m # ms)))"

text \<open>The message of the \<^verbatim>\<open>NagiosCritical\<close> raised for a command that failed.\<close>

definition failed_with :: "string list \<Rightarrow> int \<Rightarrow> string \<Rightarrow> string" where
  "failed_with cmd code main_line =
     ''Command '' @ cmd_str cmd @ '' failed with code '' @ str_int code @ '': '' @ main_line"

definition listing_cmd :: "string \<Rightarrow> string list" where
  "listing_cmd etcdctl_path = [etcdctl_path, ''member'', ''list'', ''-w'', ''json'']"

text \<open>
  \<^verbatim>\<open>subprocess.check_output\<close> raises \<^verbatim>\<open>CalledProcessError\<close> exactly when the return
  code is not zero; \<^verbatim>\<open>json.loads\<close> and the comprehension are outside the
  \<^verbatim>\<open>try\<close>.
\<close>

definition get_v3_members_list :: "world \<Rightarrow> string \<Rightarrow> exn + V3ClusterMember list" where
  "get_v3_members_list W etcdctl_path =
     (let cmd = listing_cmd etcdctl_path;
          res = run W cmd
      in if returncode res \<noteq> 0 then
           (case utf8_decode W (stdout res) of
              None \<Rightarrow> Inl (UnicodeDecodeError (utf8_reason W (stdout res)))
            | Some text \<Rightarrow>
                (let stdout_l = stripped_lines text
                 in if stdout_l \<noteq> []
                    then Inl (NagiosCritical (failed_with cmd (returncode res) (hd stdout_l))
                                (Some (join [CHR 0x0A] stdout_l)))
                    else Inl (NagiosCritical (failed_with cmd (returncode res) ''No output'') None)))
         else
           andThen (json_loads W (stdout res)) (\<lambda>parsed.
           andThen (getitem parsed ''members'') (\<lambda>ms.
           andThen (iter_json ms) members_of_json)))"

subsection \<open>get\_v3\_members\_health\<close>

text \<open>
  The name \<^verbatim>\<open>error\<close> in \<^verbatim>\<open>matched_dict.get(error, None)\<close> is not a string but a
  variable, and neither the method nor the module binds it: reading it raises
  \<^verbatim>\<open>NameError\<close>.
\<close>

definition global_error :: "exn + string" where
  "global_error = Inl (NameError ''name 'error' is not defined'')"

text \<open>
  One turn of the loop of the legacy format (the body of \<^verbatim>\<open>for entry in ...\<close>): the two
  matches, the choice of \<^verbatim>\<open>matched_dict\<close> and \<^verbatim>\<open>health\<close>, the three assertions, and
  the dict that is appended to \<^verbatim>\<open>parsed\<close>, whose values are evaluated in the order
  written.
\<close>

definition legacy_entry :: "string \<Rightarrow> exn + json" where
  "legacy_entry entry =
     (let unparsable = AssertionError (''Old etcd without JSON support but unparsable line '' @ entry)
      in case (case matcher_healthy entry of
                 Some d \<Rightarrow> Some (d, True)
               | None \<Rightarrow> (case matcher_unhealthy entry of
                             Some d \<Rightarrow> Some (d, False)
                           | None \<Rightarrow> None)) of
           None \<Rightarrow> Inl unparsable
         | Some (matched_dict, healthy) \<Rightarrow>
             (case (map_of matched_dict ''endpoint'', map_of matched_dict ''health'',
                    map_of matched_dict ''took'') of
                (None, _, _) \<Rightarrow> Inl unparsable
              | (Some endpoint, None, _) \<Rightarrow> Inl unparsable
              | (Some endpoint, Some _, None) \<Rightarrow> Inl unparsable
              | (Some endpoint, Some _, Some duration) \<Rightarrow>
                  andThen global_error (\<lambda>key.
                    Inr (JObj [(''endpoint'', JStr endpoint),
                               (''health'', JBool healthy),
                               (''took'', JStr duration),
                               (''peer_urls'', JArr [JStr endpoint]),
                               (''client_urls'', JArr []),
                               (''error'', (case map_of matched_dict key of
                                              None \<Rightarrow> JNull | Some e \<Rightarrow> JStr e))]))))"

fun legacy_entries :: "string list \<Rightarrow> exn + json list" where
  "legacy_entries [] = Inr []"
| "legacy_entries (entry # entries) =
     (case legacy_entry entry of Inl e \<Rightarrow> Inl e
      | Inr parsed_entry \<Rightarrow>
          (case legacy_entries entries of Inl e \<Rightarrow> Inl e
           | Inr parsed \<Rightarrow> Inr (parsed_entry # parsed)))"

text \<open>
  \<^verbatim>\<open>[x.peer_urls[0] for x in members]\<close>: an empty \<^verbatim>\<open>peer_urls\<close> raises
  \<^verbatim>\<open>IndexError\<close>.
\<close>

fun endpoint_all_members :: "V3ClusterMember list \<Rightarrow> exn + string list" where
  "endpoint_all_members [] = Inr []"
| "endpoint_all_members (x # xs) =
     (case peer_urls x of
        [] \<Rightarrow> Inl (IndexError ''list index out of range'')
      | u # _ \<Rightarrow> (case endpoint_all_members xs of Inl e \<Rightarrow> Inl e | Inr us \<Rightarrow> Inr (u # us)))"

definition health_cmd :: "string \<Rightarrow> string list \<Rightarrow> string list" where
  "health_cmd etcdctl_path endpoints =
     [etcdctl_path, ''--endpoints='' @ join '','' endpoints, ''endpoint'', ''health'', ''-w'', ''json'']"

text \<open>
  The \<^verbatim>\<open>try\<close> statement around the probe, from the finished process to \<^verbatim>\<open>parsed\<close>.
  \<^item> \<^verbatim>\<open>json.loads(output)\<close> raises \<^verbatim>\<open>JSONDecodeError\<close>: the legacy format is read;
    the return code is not looked at.
  \<^item> It raises something else: that exception leaves the method.
  \<^item> It returns: \<^verbatim>\<open>res.check_returncode()\<close> raises \<^verbatim>\<open>CalledProcessError\<close> when the
    return code is not zero, and the handler of the outer \<^verbatim>\<open>try\<close> decodes both
    streams, parses \<^verbatim>\<open>exc.stdout\<close> (the same bytes) again and raises
    \<^verbatim>\<open>NagiosCritical\<close> only if that fails, with any exception.
\<close>

definition probe_parsed :: "world \<Rightarrow> string list \<Rightarrow> completed \<Rightarrow> exn + json" where
  "probe_parsed W cmd res =
     (case json_loads W (stdout res) of
        Inl (JSONDecodeError msg) \<Rightarrow>
          (case utf8_decode W (stdout res) of
             None \<Rightarrow> Inl (UnicodeDecodeError (utf8_reason W (stdout res)))
           | Some text \<Rightarrow> andThen (legacy_entries (splitlines text)) (\<lambda>parsed. Inr (JArr parsed)))
      | Inl e \<Rightarrow> Inl e
      | Inr parsed \<Rightarrow>
          if returncode res = 0 then Inr parsed
          else
            (case utf8_decode W (stdout res) of
               None \<Rightarrow> Inl (UnicodeDecodeError (utf8_reason W (stdout res)))
             | Some out_text \<Rightarrow>
                 (case utf8_decode W (stderr res) of
                    None \<Rightarrow> Inl (UnicodeDecodeError (utf8_reason W (stderr res)))
                  | Some err_text \<Rightarrow>
                      (let stdout_l = stripped_lines out_text;
                           stderr_l = stripped_lines err_text
                       in case json_loads W (stdout res) of
                            Inr parsed' \<Rightarrow> Inr parsed'
                          | Inl _ \<Rightarrow>
                              (let main_line = (if stdout_l \<noteq> [] then hd stdout_l
                                                else if stderr_l \<noteq> [] then hd stderr_l
                                                else ''No output'')
                               in if stdout_l @ stderr_l \<noteq> []
                                  then Inl (NagiosCritical (failed_with cmd (returncode res) main_line)
                                              (Some (join [CHR 0x0A] (stdout_l @ stderr_l))))
                                  else Inl (NagiosCritical (failed_with cmd (returncode res) main_line)
                                              None))))))"

text \<open>
  \<^verbatim>\<open>[x for x in members if parsed_member["endpoint"] in x.peer_urls]\<close>: the lookup of
  the endpoint runs once for every member, so not at all when there is no member. The
  endpoint may be any value; in a list of strings it is found only if it is a string
  equal to one of them.
\<close>

fun endpoint_in :: "json \<Rightarrow> string list \<Rightarrow> bool" where
  "endpoint_in (JStr s) urls = (s \<in> set urls)"
| "endpoint_in j urls = False"

fun matchings_of :: "json \<Rightarrow> V3ClusterMember list \<Rightarrow> exn + V3ClusterMember list" where
  "matchings_of parsed_member [] = Inr []"
| "matchings_of parsed_member (x # xs) =
     (case getitem parsed_member ''endpoint'' of
        Inl e \<Rightarrow> Inl e
      | Inr endpoint \<Rightarrow>
          (case matchings_of parsed_member xs of
             Inl e \<Rightarrow> Inl e
           | Inr rest \<Rightarrow> Inr (if endpoint_in endpoint (peer_urls x) then x # rest else rest)))"

text \<open>\<^verbatim>\<open>x.get(k, None)\<close>: only a dict has the method.\<close>

fun get_or_none :: "json \<Rightarrow> string \<Rightarrow> exn + json" where
  "get_or_none (JObj kvs) k = Inr (case map_of kvs k of None \<Rightarrow> JNull | Some v \<Rightarrow> v)"
| "get_or_none j k =
     Inl (AttributeError (quoted (type_name j) @ '' object has no attribute '' @ quoted ''get''))"

text \<open>
  One turn of the reconciliation loop: the matching members, the assertion that there is
  exactly one (its message looks the endpoint up again), and the health record built
  from that member and the entry, whose \<^verbatim>\<open>health\<close>, \<^verbatim>\<open>took\<close> and \<^verbatim>\<open>error\<close> are stored
  as they are; \<^verbatim>\<open>parsed_member.get("error", None)\<close> reads a missing key as \<^verbatim>\<open>None\<close>.
\<close>

definition reconcile_one :: "V3ClusterMember list \<Rightarrow> json \<Rightarrow> exn + V3ClusterMemberHealth" where
  "reconcile_one members parsed_member =
     andThen (matchings_of parsed_member members) (\<lambda>matchings.
       if length matchings \<noteq> 1 then
         andThen (getitem parsed_member ''endpoint'') (\<lambda>endpoint.
           Inl (AssertionError (''Unable to find node definition matching endpoint ''
                                  @ py_str endpoint)))
       else
         (let matching = hd matchings in
          andThen (getitem parsed_member ''health'') (\<lambda>h.
          andThen (getitem parsed_member ''took'') (\<lambda>t.
          andThen (get_or_none parsed_member ''error'') (\<lambda>e.
            Inr \<lparr>member_id = member_id matching, name = name matching,
                 peer_urls = peer_urls matching, client_urls = client_urls matching,
                 health = h, took = t, error = e\<rparr>)))))"

fun reconcile :: "V3ClusterMember list \<Rightarrow> json list \<Rightarrow> exn + V3ClusterMemberHealth list" where
  "reconcile members [] = Inr []"
| "reconcile members (parsed_member # rest) =
     (case reconcile_one members parsed_member of
        Inl e \<Rightarrow> Inl e
      | Inr h \<Rightarrow> (case reconcile members rest of Inl e \<Rightarrow> Inl e | Inr hs \<Rightarrow> Inr (h # hs)))"

definition get_v3_members_health :: "world \<Rightarrow> string \<Rightarrow> exn + V3ClusterMemberHealth list" where
  "get_v3_members_health W etcdctl_path =
     andThen (get_v3_members_list W etcdctl_path) (\<lambda>members.
     andThen (endpoint_all_members members) (\<lambda>endpoints.
       (let cmd = health_cmd etcdctl_path endpoints;
            res = run W cmd
        in andThen (probe_parsed W cmd res) (\<lambda>parsed.
           andThen (iter_json parsed) (reconcile members)))))"

subsection \<open>check\_cluster\_members and the script\<close>

text \<open>
  The part of \<^verbatim>\<open>check_cluster_members\<close> after the members' health is known: it always
  raises, and the exception is the result. The thresholds are \<open>None\<close> when not set.
  \<^verbatim>\<open>x.health is True\<close> and \<^verbatim>\<open>x.health is False\<close> hold for the two booleans only, so
  a member with another \<^verbatim>\<open>health\<close> is counted in the total and in neither list.
\<close>

definition raise_for_thresholds :: "V3ClusterMemberHealth list \<Rightarrow> int option \<Rightarrow> int option \<Rightarrow> exn" where
  "raise_for_thresholds members warning critical =
     (let healthy_members = filter (\<lambda>x. health x = JBool True) members;
          dead_members = filter (\<lambda>x. health x = JBool False) members;
          lines_healthy = map (\<lambda>x. name x @ '': healthy: took '' @ py_str (took x)) healthy_members;
          lines_dead = map (\<lambda>x. name x @ '': dead: took '' @ py_str (took x) @ '': ''
                                   @ py_str (error x))
                         dead_members;
          multiline = join [CHR 0x0A] (lines_healthy @ lines_dead);
          counts = str_nat (length healthy_members) @ ''/'' @ str_nat (length members)
                     @ '' healthy nodes: '';
          dead_summary = counts @ join '', '' (map (\<lambda>x. name x @ '': '' @ py_str (error x)) dead_members)
      in if critical \<noteq> None \<and> int (length dead_members) \<ge> the critical then
           NagiosCritical dead_summary (Some multiline)
         else if warning \<noteq> None \<and> int (length dead_members) \<ge> the warning then
           NagiosWarning dead_summary (Some multiline)
         else if dead_members = [] then
           NagiosOk (counts @ join '', '' (map name healthy_members)) (Some multiline)
         else
           NagiosOk dead_summary (Some multiline))"

definition check_cluster_members :: "world \<Rightarrow> string \<Rightarrow> int option \<Rightarrow> int option \<Rightarrow> exn" where
  "check_cluster_members W etcdctl_path warning critical =
     (case get_v3_members_health W etcdctl_path of
        Inl e \<Rightarrow> e
      | Inr members \<Rightarrow> raise_for_thresholds members warning critical)"

text \<open>\<^verbatim>\<open>exc.__class__.__name__\<close> and \<^verbatim>\<open>str(exc)\<close>.\<close>

fun class_name :: "exn \<Rightarrow> string" where
  "class_name (NagiosOk m ml) = ''NagiosOk''"
| "class_name (NagiosWarning m ml) = ''NagiosWarning''"
| "class_name (NagiosCritical m ml) = ''NagiosCritical''"
| "class_name (AssertionError m) = ''AssertionError''"
| "class_name (NameError m) = ''NameError''"
| "class_name (KeyError k) = ''KeyError''"
| "class_name (TypeError m) = ''TypeError''"
| "class_name (IndexError m) = ''IndexError''"
| "class_name (AttributeError m) = ''AttributeError''"
| "class_name (JSONDecodeError m) = ''JSONDecodeError''"
| "class_name (UnicodeDecodeError m) = ''UnicodeDecodeError''"

fun str_exn :: "exn \<Rightarrow> string" where
  "str_exn (NagiosOk m ml) = m"
| "str_exn (NagiosWarning m ml) = m"
| "str_exn (NagiosCritical m ml) = m"
| "str_exn (AssertionError m) = m"
| "str_exn (NameError m) = m"
| "str_exn (KeyError k) = repr_str k"
| "str_exn (TypeError m) = m"
| "str_exn (IndexError m) = m"
| "str_exn (AttributeError m) = m"
| "str_exn (JSONDecodeError m) = m"
| "str_exn (UnicodeDecodeError m) = m"

text \<open>\<^verbatim>\<open>if exc.multiline: print(exc.multiline)\<close>: nothing for \<^verbatim>\<open>None\<close> and for the empty text.\<close>

definition print_multiline :: "string option \<Rightarrow> string list" where
  "print_multiline ml = (case ml of None \<Rightarrow> [] | Some t \<Rightarrow> (if t = [] then [] else [t]))"

text \<open>
  The handlers at the end of the script: what is printed (one text for each call of
  \<^verbatim>\<open>print\<close>) and the exit status.
\<close>

fun exit_with :: "exn \<Rightarrow> string list \<times> int" where
  "exit_with (NagiosOk m ml) = ((''OK: '' @ m) # print_multiline ml, 0)"
| "exit_with (NagiosWarning m ml) = ((''WARNING: '' @ m) # print_multiline ml, 1)"
| "exit_with (NagiosCritical m ml) = ((''CRITICAL: '' @ m) # print_multiline ml, 2)"
| "exit_with e = ([''UNKNOWN: '' @ class_name e @ ''. '' @ str_exn e], 3)"

text \<open>
  The script after \<^verbatim>\<open>parse_args\<close>, for the action \<^verbatim>\<open>cluster_members\<close> (the only one
  the argument parser lets through) with the two thresholds it returns: the constructor
  of \<^verbatim>\<open>CheckEtcdCluster\<close> asserts that \<^verbatim>\<open>etcdctl\<close> was found.
\<close>

definition main :: "world \<Rightarrow> int option \<Rightarrow> int option \<Rightarrow> string list \<times> int" where
  "main W warning critical =
     exit_with (case which_etcdctl W of
                  None \<Rightarrow> AssertionError ''Unable to find etcdctl command in path''
                | Some etcdctl_path \<Rightarrow> check_cluster_members W etcdctl_path warning critical)"

subsection \<open>Predicates used in the statements\<close>

text \<open>
  The exceptions that the script's first three handlers catch; every other one falls to
  \<^verbatim>\<open>except Exception\<close>.
\<close>

fun is_nagios :: "exn \<Rightarrow> bool" where
  "is_nagios (NagiosOk m ml) = True"
| "is_nagios (NagiosWarning m ml) = True"
| "is_nagios (NagiosCritical m ml) = True"
| "is_nagios e = False"

text \<open>The members that \<^verbatim>\<open>check_cluster_members\<close> counts as dead.\<close>

definition dead_of :: "V3ClusterMemberHealth list \<Rightarrow> V3ClusterMemberHealth list" where
  "dead_of members = filter (\<lambda>x. health x = JBool False) members"

text \<open>
  A record of a member listing that holds the fields of the member \<open>m\<close>: its
  \<^verbatim>\<open>ID\<close> and \<^verbatim>\<open>clientURLs\<close> are the values of \<open>m\<close>, its \<^verbatim>\<open>name\<close> is the string
  and its \<^verbatim>\<open>peerURLs\<close> the list of strings of \<open>m\<close>, as in the expected shape
  \<^verbatim>\<open>{"ID": int, "name": str, "peerURLs": [str], "clientURLs": [str]}\<close>.
\<close>

definition encodes :: "json \<Rightarrow> V3ClusterMember \<Rightarrow> bool" where
  "encodes x m =
     (getitem x ''ID'' = Inr (member_id m)
      \<and> getitem x ''name'' = Inr (JStr (name m))
      \<and> getitem x ''peerURLs'' = Inr (JArr (map JStr (peer_urls m)))
      \<and> getitem x ''clientURLs'' = Inr (client_urls m))"

text \<open>
  A parsed output that is not of the shape
  \<^verbatim>\<open>{"members": [{"ID", "name", "peerURLs", "clientURLs"}, ...]}\<close>, as far as the
  lookups of \<^verbatim>\<open>get_v3_members_list\<close> go: \<^verbatim>\<open>parsed["members"]\<close> raises, or its value
  cannot be iterated, or one of its elements raises when looked up under one of the four
  keys (it is not an object, or lacks the key).
\<close>

definition record_lacks :: "json \<Rightarrow> bool" where
  "record_lacks x = list_ex (\<lambda>k. isl (getitem x k)) [''ID'', ''name'', ''peerURLs'', ''clientURLs'']"

definition not_a_listing :: "json \<Rightarrow> bool" where
  "not_a_listing parsed =
     (case getitem parsed ''members'' of
        Inl e \<Rightarrow> True
      | Inr ms \<Rightarrow> (case iter_json ms of Inl e \<Rightarrow> True | Inr xs \<Rightarrow> list_ex record_lacks xs))"

subsection \<open>Concrete runs\<close>

text \<open>
  A cluster of two members, with the addresses of the specification's scenario D, and
  the outputs of \<^verbatim>\<open>etcdctl\<close> used in the examples below. \<open>scenario_loads\<close> is
  \<^verbatim>\<open>json.loads\<close> on these outputs, and \<open>ascii_decode\<close> is the UTF-8 decoder on ASCII
  bytes, which are all that these outputs hold.
\<close>

definition etcdctl :: string where
  "etcdctl = ''/usr/bin/etcdctl''"

definition listing_bytes :: string where
  \<open>listing_bytes = ''{"members":[{"ID":1,"name":"etcd1","peerURLs":["10.0.0.1:2380"],"clientURLs":["10.0.0.1:2379"]},{"ID":2,"name":"etcd2","peerURLs":["10.0.0.2:2380"],"clientURLs":["10.0.0.2:2379"]}]}''\<close>

definition listing_json :: json where
  "listing_json =
     JObj [(''members'',
            JArr [JObj [(''ID'', JInt 1), (''name'', JStr ''etcd1''),
                        (''peerURLs'', JArr [JStr ''10.0.0.1:2380'']),
                        (''clientURLs'', JArr [JStr ''10.0.0.1:2379''])],
                  JObj [(''ID'', JInt 2), (''name'', JStr ''etcd2''),
                        (''peerURLs'', JArr [JStr ''10.0.0.2:2380'']),
                        (''clientURLs'', JArr [JStr ''10.0.0.2:2379''])]])]"

definition two_members :: "V3ClusterMember list" where
  "two_members =
     [\<lparr>member_id = JInt 1, name = ''etcd1'', peer_urls = [''10.0.0.1:2380''],
       client_urls = JArr [JStr ''10.0.0.1:2379'']\<rparr>,
      \<lparr>member_id = JInt 2, name = ''etcd2'', peer_urls = [''10.0.0.2:2380''],
       client_urls = JArr [JStr ''10.0.0.2:2379'']\<rparr>]"

text \<open>A listing in which both members advertise the same peer address.\<close>

definition shared_bytes :: string where
  \<open>shared_bytes = ''{"members":[{"ID":1,"name":"etcd1","peerURLs":["10.0.0.1:2380"],"clientURLs":[]},{"ID":2,"name":"etcd2","peerURLs":["10.0.0.1:2380"],"clientURLs":[]}]}''\<close>

definition shared_json :: json where
  "shared_json =
     JObj [(''members'',
            JArr [JObj [(''ID'', JInt 1), (''name'', JStr ''etcd1''),
                        (''peerURLs'', JArr [JStr ''10.0.0.1:2380'']), (''clientURLs'', JArr [])],
                  JObj [(''ID'', JInt 2), (''name'', JStr ''etcd2''),
                        (''peerURLs'', JArr [JStr ''10.0.0.1:2380'']), (''clientURLs'', JArr [])]])]"

definition shared_members :: "V3ClusterMember list" where
  "shared_members =
     [\<lparr>member_id = JInt 1, name = ''etcd1'', peer_urls = [''10.0.0.1:2380''],
       client_urls = JArr []\<rparr>,
      \<lparr>member_id = JInt 2, name = ''etcd2'', peer_urls = [''10.0.0.1:2380''],
       client_urls = JArr []\<rparr>]"

text \<open>A listing output that is JSON and has no \<^verbatim>\<open>members\<close>.\<close>

definition headless_bytes :: string where
  \<open>headless_bytes = ''{"header":{"cluster_id":1}}''\<close>

definition headless_json :: json where
  "headless_json = JObj [(''header'', JObj [(''cluster_id'', JInt 1)])]"

definition health_bytes :: string where
  \<open>health_bytes = ''[{"endpoint":"10.0.0.1:2380","health":true,"took":"3ms"},{"endpoint":"10.0.0.2:2380","health":false,"took":"5s","error":"context deadline exceeded"}]''\<close>

definition health_json :: json where
  "health_json =
     JArr [JObj [(''endpoint'', JStr ''10.0.0.1:2380''), (''health'', JBool True),
                 (''took'', JStr ''3ms'')],
           JObj [(''endpoint'', JStr ''10.0.0.2:2380''), (''health'', JBool False),
                 (''took'', JStr ''5s''), (''error'', JStr ''context deadline exceeded'')]]"

text \<open>A health entry for an address that no member advertises.\<close>

definition stray_bytes :: string where
  \<open>stray_bytes = ''[{"endpoint":"10.0.0.9:2380","health":true,"took":"3ms"}]''\<close>

definition stray_json :: json where
  "stray_json =
     JArr [JObj [(''endpoint'', JStr ''10.0.0.9:2380''), (''health'', JBool True),
                 (''took'', JStr ''3ms'')]]"

text \<open>The two lines of scenario D, each ended by a line feed.\<close>

definition scenario_d_output :: string where
  "scenario_d_output =
     ''10.0.0.1:2380 is healthy: took = 3ms'' @ [CHR 0x0A]
     @ ''10.0.0.2:2380 is unhealthy: context deadline exceeded'' @ [CHR 0x0A]"

text \<open>A legacy output whose second line has neither form.\<close>

definition garbled_output :: string where
  "garbled_output =
     ''10.0.0.2:2380 is unhealthy: context deadline exceeded'' @ [CHR 0x0A]
     @ ''10.0.0.1:2380 looks fine'' @ [CHR 0x0A]"

definition scenario_loads :: "string \<Rightarrow> exn + json" where
  "scenario_loads b =
     (if b = listing_bytes then Inr listing_json
      else if b = shared_bytes then Inr shared_json
      else if b = headless_bytes then Inr headless_json
      else if b = health_bytes then Inr health_json
      else if b = stray_bytes then Inr stray_json
      else Inl (JSONDecodeError ''Expecting value: line 1 column 1 (char 0)''))"

definition ascii_decode :: "string \<Rightarrow> string option" where
  "ascii_decode b = (if list_all (\<lambda>c. (of_char c :: nat) < 128) b then Some b else None)"

text \<open>What a shell gives for a command line that is none of those expected.\<close>

definition not_found :: completed where
  "not_found = \<lparr>returncode = 127, stdout = [], stderr = ''command not found'' @ [CHR 0x0A]\<rparr>"

text \<open>
  The world in which the member listing finishes as \<open>listing\<close> and the health probe
  as \<open>probe\<close>. Each answers only to its own argument vector, written out here: the
  listing command, and the probe of the two addresses of \<open>listing_bytes\<close> or of the
  address that \<open>shared_bytes\<close> has twice.
\<close>

definition scenario :: "completed \<Rightarrow> completed \<Rightarrow> world" where
  "scenario listing probe =
     \<lparr>which_etcdctl = Some etcdctl,
      run = (\<lambda>cmd.
        if cmd = [''/usr/bin/etcdctl'', ''member'', ''list'', ''-w'', ''json''] then listing
        else if cmd = [''/usr/bin/etcdctl'', ''--endpoints=10.0.0.1:2380,10.0.0.2:2380'',
                       ''endpoint'', ''health'', ''-w'', ''json'']
                \<or> cmd = [''/usr/bin/etcdctl'', ''--endpoints=10.0.0.1:2380,10.0.0.1:2380'',
                          ''endpoint'', ''health'', ''-w'', ''json'']
        then probe
        else not_found),
      json_loads = scenario_loads,
      utf8_decode = ascii_decode,
      utf8_reason = (\<lambda>b. ''invalid start byte'')\<rparr>"

definition listing_ok :: completed where
  "listing_ok = \<lparr>returncode = 0, stdout = listing_bytes, stderr = []\<rparr>"

definition listing_shared :: completed where
  "listing_shared = \<lparr>returncode = 0, stdout = shared_bytes, stderr = []\<rparr>"

text \<open>
  Scenario E: the member listing fails; its error text arrives on \<open>stdout\<close>, into
  which the standard error stream is redirected.
\<close>

definition listing_failed :: completed where
  "listing_failed =
     \<lparr>returncode = 1, stdout = ''Error: context deadline exceeded'' @ [CHR 0x0A], stderr = []\<rparr>"

text \<open>A member listing that exits with status zero and prints no JSON.\<close>

definition listing_not_json :: completed where
  "listing_not_json = \<lparr>returncode = 0, stdout = ''etcdctl version: 3.3.25'' @ [CHR 0x0A], stderr = []\<rparr>"

definition listing_headless :: completed where
  "listing_headless = \<lparr>returncode = 0, stdout = headless_bytes, stderr = []\<rparr>"

text \<open>A probe that prints JSON and exits with status one, as for an unhealthy endpoint.\<close>

definition probe_json_exit1 :: completed where
  "probe_json_exit1 =
     \<lparr>returncode = 1, stdout = health_bytes, stderr = ''Error: unhealthy cluster'' @ [CHR 0x0A]\<rparr>"

definition probe_json_ok :: completed where
  "probe_json_ok = \<lparr>returncode = 0, stdout = health_bytes, stderr = []\<rparr>"

definition probe_stray :: completed where
  "probe_stray = \<lparr>returncode = 0, stdout = stray_bytes, stderr = []\<rparr>"

definition probe_scenario_d :: completed where
  "probe_scenario_d = \<lparr>returncode = 1, stdout = scenario_d_output, stderr = []\<rparr>"

definition probe_garbled :: completed where
  "probe_garbled = \<lparr>returncode = 1, stdout = garbled_output, stderr = []\<rparr>"

text \<open>Three dead members and one healthy one, for the threshold rules.\<close>

definition dead_node :: "string \<Rightarrow> V3ClusterMemberHealth" where
  "dead_node n =
     \<lparr>member_id = JInt 0, name = n, peer_urls = [n @ '':2380''], client_urls = JArr [],
      health = JBool False, took = JStr ''5s'', error = JStr ''context deadline exceeded''\<rparr>"

definition live_node :: "string \<Rightarrow> V3ClusterMemberHealth" where
  "live_node n =
     \<lparr>member_id = JInt 0, name = n, peer_urls = [n @ '':2380''], client_urls = JArr [],
      health = JBool True, took = JStr ''3ms'', error = JNull\<rparr>"

section \<open>Properties\<close>

subsection \<open>Auxiliary facts\<close>

lemma andThen_Inl [simp]: "andThen (Inl e) f = Inl e"
  by (simp add: andThen_def)

lemma andThen_Inr [simp]: "andThen (Inr v) f = f v"
  by (simp add: andThen_def)

lemma andThen_eq_Inl:
  "andThen m f = Inl e \<longleftrightarrow> m = Inl e \<or> (\<exists>v. m = Inr v \<and> f v = Inl e)"
  by (cases m) simp_all

text \<open>Every exception other than the three Nagios states ends the script with status 3.\<close>

lemma exit_with_not_nagios:
  "\<not> is_nagios e \<Longrightarrow> exit_with e = ([''UNKNOWN: '' @ class_name e @ ''. '' @ str_exn e], 3)"
  by (cases e) simp_all

lemma getitem_not_nagios: "getitem x k = Inl e \<Longrightarrow> \<not> is_nagios e"
  by (cases x) (auto split: option.splits)

lemma iter_json_not_nagios: "iter_json x = Inl e \<Longrightarrow> \<not> is_nagios e"
  by (cases x) auto

lemma expect_str_not_nagios: "expect_str j = Inl e \<Longrightarrow> \<not> is_nagios e"
  by (cases j) auto

lemma expect_strs_not_nagios: "expect_strs js = Inl e \<Longrightarrow> \<not> is_nagios e"
  by (induction js arbitrary: e) (auto split: sum.splits dest: expect_str_not_nagios)

lemma expect_str_list_not_nagios: "expect_str_list j = Inl e \<Longrightarrow> \<not> is_nagios e"
  by (cases j) (auto dest: expect_strs_not_nagios)

lemma expect_strs_map: "expect_strs (map JStr ss) = Inr ss"
  by (induction ss) simp_all

subsection \<open>The member listing\<close>

lemma member_of_json_not_nagios:
  assumes "member_of_json x = Inl e"
  shows "\<not> is_nagios e"
proof -
  from assms consider
      (g) "\<exists>k. getitem x k = Inl e"
    | (s) "\<exists>j. expect_str j = Inl e"
    | (l) "\<exists>j. expect_str_list j = Inl e"
    unfolding member_of_json_def by (fastforce simp: andThen_eq_Inl)
  then show ?thesis
    by cases (auto dest: getitem_not_nagios expect_str_not_nagios expect_str_list_not_nagios)
qed

lemma members_of_json_not_nagios: "members_of_json xs = Inl e \<Longrightarrow> \<not> is_nagios e"
  by (induction xs arbitrary: e) (auto split: sum.splits dest: member_of_json_not_nagios)

lemma member_of_json_encodes: "encodes x m \<Longrightarrow> member_of_json x = Inr m"
  by (cases m) (simp add: encodes_def member_of_json_def expect_strs_map)

lemma members_of_json_encodes: "list_all2 encodes xs ms \<Longrightarrow> members_of_json xs = Inr ms"
  by (induction rule: list_all2_induct) (simp_all add: member_of_json_encodes)

lemma endpoint_all_members_first:
  "\<forall>m \<in> set ms. peer_urls m \<noteq> [] \<Longrightarrow>
   endpoint_all_members ms = Inr (map (\<lambda>m. hd (peer_urls m)) ms)"
  by (induction ms) (auto split: list.splits)

text \<open>A record that cannot be looked up under one of the four keys stops the comprehension.\<close>

lemma record_lacks_raises: "record_lacks x \<Longrightarrow> \<exists>e. member_of_json x = Inl e"
  by (auto simp: record_lacks_def member_of_json_def andThen_def isl_def split: sum.splits)

lemma members_of_json_fails:
  "x \<in> set xs \<Longrightarrow> member_of_json x = Inl e \<Longrightarrow> \<exists>e'. members_of_json xs = Inl e'"
  by (induction xs) (auto split: sum.splits)

text \<open>
  Claim C9. For a member listing that exits with status zero and whose output parses to
  an object with a \<^verbatim>\<open>members\<close> array of records of the expected shape (record \<open>i\<close>
  holds the fields of a member \<open>ms ! i\<close>, each with at least one peer URL),
  \<^verbatim>\<open>get_v3_members_list\<close> returns one member for each record, in the order of the
  input, member \<open>i\<close> with the ID (and the other fields) of record \<open>i\<close>; and the
  health probe is the one run of \<^verbatim>\<open>etcdctl\<close> whose \<^verbatim>\<open>--endpoints\<close> argument is the
  first peer URL of each returned member, in the same order, joined by commas.
\<close>

theorem listing_preserves_order:
  assumes "returncode (run W [p, ''member'', ''list'', ''-w'', ''json'']) = 0"
    and "json_loads W (stdout (run W [p, ''member'', ''list'', ''-w'', ''json''])) = Inr parsed"
    and "getitem parsed ''members'' = Inr (JArr xs)"
    and "list_all2 encodes xs ms"
    and "\<forall>m \<in> set ms. peer_urls m \<noteq> []"
  shows "\<exists>members. get_v3_members_list W p = Inr members
           \<and> length members = length xs
           \<and> (\<forall>i < length xs. getitem (xs ! i) ''ID'' = Inr (member_id (members ! i))
                               \<and> encodes (xs ! i) (members ! i))
           \<and> endpoint_all_members members = Inr (map (\<lambda>m. hd (peer_urls m)) members)
           \<and> get_v3_members_health W p
               = andThen
                   (probe_parsed W
                      [p, ''--endpoints='' @ join '','' (map (\<lambda>m. hd (peer_urls m)) members),
                       ''endpoint'', ''health'', ''-w'', ''json'']
                      (run W
                         [p, ''--endpoints='' @ join '','' (map (\<lambda>m. hd (peer_urls m)) members),
                          ''endpoint'', ''health'', ''-w'', ''json'']))
                   (\<lambda>parsed. andThen (iter_json parsed) (reconcile members))"
proof -
  from assms(1-4) have l: "get_v3_members_list W p = Inr ms"
    by (simp add: get_v3_members_list_def listing_cmd_def Let_def members_of_json_encodes)
  from assms(5) have e: "endpoint_all_members ms = Inr (map (\<lambda>m. hd (peer_urls m)) ms)"
    by (rule endpoint_all_members_first)
  from l e have h: "get_v3_members_health W p
      = andThen
          (probe_parsed W
             [p, ''--endpoints='' @ join '','' (map (\<lambda>m. hd (peer_urls m)) ms),
              ''endpoint'', ''health'', ''-w'', ''json'']
             (run W
                [p, ''--endpoints='' @ join '','' (map (\<lambda>m. hd (peer_urls m)) ms),
                 ''endpoint'', ''health'', ''-w'', ''json'']))
          (\<lambda>parsed. andThen (iter_json parsed) (reconcile ms))"
    by (simp add: get_v3_members_health_def health_cmd_def Let_def)
  from assms(4) have n: "length ms = length xs"
    and a: "\<forall>i < length xs. encodes (xs ! i) (ms ! i)"
    by (simp_all add: list_all2_conv_all_nth)
  from a have "\<forall>i < length xs. getitem (xs ! i) ''ID'' = Inr (member_id (ms ! i))"
    by (simp add: encodes_def)
  with l e h n a show ?thesis
    by blast
qed

theorem listing_preserves_order_witness:
  "returncode (run (scenario listing_ok probe_json_ok)
                 [''/usr/bin/etcdctl'', ''member'', ''list'', ''-w'', ''json'']) = 0
   \<and> json_loads (scenario listing_ok probe_json_ok)
        (stdout (run (scenario listing_ok probe_json_ok)
                   [''/usr/bin/etcdctl'', ''member'', ''list'', ''-w'', ''json''])) = Inr listing_json
   \<and> getitem listing_json ''members''
      = Inr (JArr [JObj [(''ID'', JInt 1), (''name'', JStr ''etcd1''),
                         (''peerURLs'', JArr [JStr ''10.0.0.1:2380'']),
                         (''clientURLs'', JArr [JStr ''10.0.0.1:2379''])],
                   JObj [(''ID'', JInt 2), (''name'', JStr ''etcd2''),
                         (''peerURLs'', JArr [JStr ''10.0.0.2:2380'']),
                         (''clientURLs'', JArr [JStr ''10.0.0.2:2379''])]])
   \<and> get_v3_members_list (scenario listing_ok probe_json_ok) ''/usr/bin/etcdctl''
      = Inr [\<lparr>member_id = JInt 1, name = ''etcd1'', peer_urls = [''10.0.0.1:2380''],
              client_urls = JArr [JStr ''10.0.0.1:2379'']\<rparr>,
             \<lparr>member_id = JInt 2, name = ''etcd2'', peer_urls = [''10.0.0.2:2380''],
              client_urls = JArr [JStr ''10.0.0.2:2379'']\<rparr>]
   \<and> endpoint_all_members two_members = Inr [''10.0.0.1:2380'', ''10.0.0.2:2380'']
   \<and> run (scenario listing_ok probe_json_ok)
        [''/usr/bin/etcdctl'', ''--endpoints=10.0.0.1:2380,10.0.0.2:2380'',
         ''endpoint'', ''health'', ''-w'', ''json''] = probe_json_ok
   \<and> run (scenario listing_ok probe_json_ok) [] = not_found
   \<and> get_v3_members_health (scenario listing_ok probe_json_ok) ''/usr/bin/etcdctl''
      = andThen
          (probe_parsed (scenario listing_ok probe_json_ok)
             [''/usr/bin/etcdctl'', ''--endpoints=10.0.0.1:2380,10.0.0.2:2380'',
              ''endpoint'', ''health'', ''-w'', ''json'']
             probe_json_ok)
          (\<lambda>parsed. andThen (iter_json parsed) (reconcile two_members))
   \<and> main (scenario listing_ok probe_json_ok) None None
      = ([''OK: 1/2 healthy nodes: etcd2: context deadline exceeded'',
          ''etcd1: healthy: took 3ms'' @ [CHR 0x0A]
          @ ''etcd2: dead: took 5s: context deadline exceeded''], 0)"
proof -
  let ?W = "scenario listing_ok probe_json_ok"
  let ?p = "''/usr/bin/etcdctl''"
  let ?xs = "[JObj [(''ID'', JInt 1), (''name'', JStr ''etcd1''),
                    (''peerURLs'', JArr [JStr ''10.0.0.1:2380'']),
                    (''clientURLs'', JArr [JStr ''10.0.0.1:2379''])],
              JObj [(''ID'', JInt 2), (''name'', JStr ''etcd2''),
                    (''peerURLs'', JArr [JStr ''10.0.0.2:2380'']),
                    (''clientURLs'', JArr [JStr ''10.0.0.2:2379''])]]"
  let ?argv = "[''/usr/bin/etcdctl'', ''--endpoints=10.0.0.1:2380,10.0.0.2:2380'',
                ''endpoint'', ''health'', ''-w'', ''json'']"
  have h1: "returncode (run ?W [?p, ''member'', ''list'', ''-w'', ''json'']) = 0"
    by code_simp
  have h2: "json_loads ?W (stdout (run ?W [?p, ''member'', ''list'', ''-w'', ''json'']))
            = Inr listing_json"
    by code_simp
  have h3: "getitem listing_json ''members'' = Inr (JArr ?xs)"
    by (simp add: listing_json_def)
  have h4: "list_all2 encodes ?xs two_members"
    by (simp add: encodes_def two_members_def)
  have h5: "\<forall>m \<in> set two_members. peer_urls m \<noteq> []"
    by (simp add: two_members_def)
  from listing_preserves_order [OF h1 h2 h3 h4 h5]
  obtain members where m: "get_v3_members_list ?W ?p = Inr members"
    and e: "endpoint_all_members members = Inr (map (\<lambda>m. hd (peer_urls m)) members)"
    and h: "get_v3_members_health ?W ?p
            = andThen
                (probe_parsed ?W
                   [?p, ''--endpoints='' @ join '','' (map (\<lambda>m. hd (peer_urls m)) members),
                    ''endpoint'', ''health'', ''-w'', ''json'']
                   (run ?W
                      [?p, ''--endpoints='' @ join '','' (map (\<lambda>m. hd (peer_urls m)) members),
                       ''endpoint'', ''health'', ''-w'', ''json'']))
                (\<lambda>parsed. andThen (iter_json parsed) (reconcile members))"
    by blast
  have l: "get_v3_members_list ?W ?p = Inr two_members"
    by code_simp
  with m have eq: "members = two_members"
    by simp
  have a: "[?p, ''--endpoints='' @ join '','' (map (\<lambda>m. hd (peer_urls m)) two_members),
            ''endpoint'', ''health'', ''-w'', ''json''] = ?argv"
    by (simp add: two_members_def)
  have r: "run ?W ?argv = probe_json_ok"
    by code_simp
  have r0: "run ?W [] = not_found"
    by code_simp
  from h have h': "get_v3_members_health ?W ?p
      = andThen (probe_parsed ?W ?argv probe_json_ok)
          (\<lambda>parsed. andThen (iter_json parsed) (reconcile two_members))"
    unfolding eq a r .
  have mn: "main ?W None None
      = ([''OK: 1/2 healthy nodes: etcd2: context deadline exceeded'',
          ''etcd1: healthy: took 3ms'' @ [CHR 0x0A]
          @ ''etcd2: dead: took 5s: context deadline exceeded''], 0)"
    by code_simp
  from e have e': "endpoint_all_members two_members = Inr [''10.0.0.1:2380'', ''10.0.0.2:2380'']"
    unfolding eq by (simp add: two_members_def)
  from l have l': "get_v3_members_list ?W ?p
      = Inr [\<lparr>member_id = JInt 1, name = ''etcd1'', peer_urls = [''10.0.0.1:2380''],
              client_urls = JArr [JStr ''10.0.0.1:2379'']\<rparr>,
             \<lparr>member_id = JInt 2, name = ''etcd2'', peer_urls = [''10.0.0.2:2380''],
              client_urls = JArr [JStr ''10.0.0.2:2379'']\<rparr>]"
    by (simp add: two_members_def)
  from h1 h2 h3 l' e' r r0 h' mn show ?thesis
    by blast
qed

text \<open>
  Claim C8, as stated, fails in its second case: a member listing that exits with status
  zero and prints text that is not JSON ends the script with UNKNOWN and status 3, since
  \<^verbatim>\<open>json.loads\<close> is called outside the \<^verbatim>\<open>try\<close> statement.
\<close>

theorem listing_not_json_counterexample:
  "run (scenario listing_not_json probe_json_ok)
     [''/usr/bin/etcdctl'', ''member'', ''list'', ''-w'', ''json'']
   = \<lparr>returncode = 0, stdout = ''etcdctl version: 3.3.25'' @ [CHR 0x0A], stderr = []\<rparr>
   \<and> json_loads (scenario listing_not_json probe_json_ok)
        (''etcdctl version: 3.3.25'' @ [CHR 0x0A])
      = Inl (JSONDecodeError ''Expecting value: line 1 column 1 (char 0)'')
   \<and> get_v3_members_list (scenario listing_not_json probe_json_ok) ''/usr/bin/etcdctl''
      = Inl (JSONDecodeError ''Expecting value: line 1 column 1 (char 0)'')
   \<and> main (scenario listing_not_json probe_json_ok) None None
      = ([''UNKNOWN: JSONDecodeError. Expecting value: line 1 column 1 (char 0)''], 3)"
  by code_simp

text \<open>
  Claim C8, amended. When the member-listing command exits with a status other than zero
  (and its output decodes), \<^verbatim>\<open>get_v3_members_list\<close> raises \<^verbatim>\<open>NagiosCritical\<close> and the
  script ends with CRITICAL and status 2: the message names the command and the status
  and ends with the first non-blank line of the output, stripped, and the detail is the
  stripped non-blank lines joined by line feeds; with no non-blank line the message ends
  with \<^verbatim>\<open>No output\<close> and there is no detail. When the command exits with status zero
  and \<^verbatim>\<open>json.loads\<close> raises on its output, that exception leaves the method and the
  script prints UNKNOWN with the exception's class and text and ends with status 3. When
  the command exits with status zero and its output is JSON but not a listing (there is
  no \<^verbatim>\<open>members\<close> to look up or to iterate, or one of its elements cannot be looked up
  under one of the four keys), the method raises an exception that is not a Nagios state
  and the script prints UNKNOWN and ends with status 3.
\<close>

theorem listing_failures:
  assumes "which_etcdctl W = Some p"
    and "res = run W [p, ''member'', ''list'', ''-w'', ''json'']"
  shows "(returncode res \<noteq> 0 \<and> utf8_decode W (stdout res) = Some text \<longrightarrow>
            get_v3_members_list W p
            = Inl (NagiosCritical
                     (failed_with [p, ''member'', ''list'', ''-w'', ''json''] (returncode res)
                        (if stripped_lines text = [] then ''No output'' else hd (stripped_lines text)))
                     (if stripped_lines text = [] then None
                      else Some (join [CHR 0x0A] (stripped_lines text))))
            \<and> snd (main W warning critical) = 2
            \<and> hd (fst (main W warning critical))
               = ''CRITICAL: '' @ failed_with [p, ''member'', ''list'', ''-w'', ''json''] (returncode res)
                   (if stripped_lines text = [] then ''No output'' else hd (stripped_lines text)))
         \<and> (returncode res = 0 \<and> json_loads W (stdout res) = Inl ex \<and> \<not> is_nagios ex \<longrightarrow>
              get_v3_members_list W p = Inl ex
              \<and> main W warning critical = ([''UNKNOWN: '' @ class_name ex @ ''. '' @ str_exn ex], 3))
         \<and> (returncode res = 0 \<and> json_loads W (stdout res) = Inr parsed \<and> not_a_listing parsed \<longrightarrow>
              (\<exists>ex'. get_v3_members_list W p = Inl ex' \<and> \<not> is_nagios ex')
              \<and> snd (main W warning critical) = 3
              \<and> (\<exists>rest. fst (main W warning critical) = [''UNKNOWN: '' @ rest]))"
proof (intro conjI impI)
  assume a: "returncode res \<noteq> 0 \<and> utf8_decode W (stdout res) = Some text"
  with assms(2) show l: "get_v3_members_list W p
            = Inl (NagiosCritical
                     (failed_with [p, ''member'', ''list'', ''-w'', ''json''] (returncode res)
                        (if stripped_lines text = [] then ''No output'' else hd (stripped_lines text)))
                     (if stripped_lines text = [] then None
                      else Some (join [CHR 0x0A] (stripped_lines text))))"
    by (simp add: get_v3_members_list_def listing_cmd_def Let_def)
  with assms(1) show "snd (main W warning critical) = 2"
    by (simp add: main_def check_cluster_members_def get_v3_members_health_def)
  from assms(1) l show "hd (fst (main W warning critical))
               = ''CRITICAL: '' @ failed_with [p, ''member'', ''list'', ''-w'', ''json''] (returncode res)
                   (if stripped_lines text = [] then ''No output'' else hd (stripped_lines text))"
    by (simp add: main_def check_cluster_members_def get_v3_members_health_def)
next
  assume b: "returncode res = 0 \<and> json_loads W (stdout res) = Inl ex \<and> \<not> is_nagios ex"
  with assms(2) show l: "get_v3_members_list W p = Inl ex"
    by (simp add: get_v3_members_list_def listing_cmd_def Let_def)
  with assms(1) have "main W warning critical = exit_with ex"
    by (simp add: main_def check_cluster_members_def get_v3_members_health_def)
  with b show "main W warning critical = ([''UNKNOWN: '' @ class_name ex @ ''. '' @ str_exn ex], 3)"
    by (simp add: exit_with_not_nagios)
next
  assume c: "returncode res = 0 \<and> json_loads W (stdout res) = Inr parsed \<and> not_a_listing parsed"
  with assms(2) have g: "get_v3_members_list W p
      = andThen (getitem parsed ''members'') (\<lambda>ms. andThen (iter_json ms) members_of_json)"
    by (simp add: get_v3_members_list_def listing_cmd_def Let_def)
  have "\<exists>ex'. andThen (getitem parsed ''members'') (\<lambda>ms. andThen (iter_json ms) members_of_json)
              = Inl ex'"
  proof (cases "getitem parsed ''members''")
    case (Inl e)
    then show ?thesis by simp
  next
    case ms: (Inr ms)
    show ?thesis
    proof (cases "iter_json ms")
      case (Inl e)
      with ms show ?thesis by simp
    next
      case xs: (Inr xs)
      with c ms have "list_ex record_lacks xs"
        by (simp add: not_a_listing_def)
      then obtain x where "x \<in> set xs" and "record_lacks x"
        by (auto simp: list_ex_iff)
      then have "\<exists>e'. members_of_json xs = Inl e'"
        using record_lacks_raises members_of_json_fails by blast
      with ms xs show ?thesis by simp
    qed
  qed
  with g obtain ex' where l: "get_v3_members_list W p = Inl ex'"
    by auto
  with c assms(2) have "getitem parsed ''members'' = Inl ex'
      \<or> (\<exists>x. iter_json x = Inl ex') \<or> (\<exists>xs. members_of_json xs = Inl ex')"
    unfolding get_v3_members_list_def listing_cmd_def Let_def
    by (fastforce simp: andThen_eq_Inl)
  then have n: "\<not> is_nagios ex'"
    by (auto dest: getitem_not_nagios iter_json_not_nagios members_of_json_not_nagios)
  with l show "\<exists>ex'. get_v3_members_list W p = Inl ex' \<and> \<not> is_nagios ex'"
    by blast
  from l assms(1) have m: "main W warning critical = exit_with ex'"
    by (simp add: main_def check_cluster_members_def get_v3_members_health_def)
  with n show "snd (main W warning critical) = 3"
    by (simp add: exit_with_not_nagios)
  from m n show "\<exists>rest. fst (main W warning critical) = [''UNKNOWN: '' @ rest]"
    by (simp add: exit_with_not_nagios)
qed

theorem listing_failures_witness:
  "which_etcdctl (scenario listing_failed probe_json_ok) = Some ''/usr/bin/etcdctl''
   \<and> run (scenario listing_failed probe_json_ok)
        [''/usr/bin/etcdctl'', ''member'', ''list'', ''-w'', ''json'']
      = \<lparr>returncode = 1, stdout = ''Error: context deadline exceeded'' @ [CHR 0x0A], stderr = []\<rparr>
   \<and> utf8_decode (scenario listing_failed probe_json_ok)
        (''Error: context deadline exceeded'' @ [CHR 0x0A])
      = Some (''Error: context deadline exceeded'' @ [CHR 0x0A])
   \<and> get_v3_members_list (scenario listing_failed probe_json_ok) ''/usr/bin/etcdctl''
      = Inl (NagiosCritical
               ''Command ETCDCTL_API=3 /usr/bin/etcdctl member list -w json failed with code 1: Error: context deadline exceeded''
               (Some ''Error: context deadline exceeded''))
   \<and> snd (main (scenario listing_failed probe_json_ok) None None) = 2
   \<and> hd (fst (main (scenario listing_failed probe_json_ok) None None))
      = ''CRITICAL: Command ETCDCTL_API=3 /usr/bin/etcdctl member list -w json failed with code 1: Error: context deadline exceeded''
   \<and> run (scenario listing_not_json probe_json_ok)
        [''/usr/bin/etcdctl'', ''member'', ''list'', ''-w'', ''json'']
      = \<lparr>returncode = 0, stdout = ''etcdctl version: 3.3.25'' @ [CHR 0x0A], stderr = []\<rparr>
   \<and> json_loads (scenario listing_not_json probe_json_ok)
        (''etcdctl version: 3.3.25'' @ [CHR 0x0A])
      = Inl (JSONDecodeError ''Expecting value: line 1 column 1 (char 0)'')
   \<and> main (scenario listing_not_json probe_json_ok) None None
      = ([''UNKNOWN: JSONDecodeError. Expecting value: line 1 column 1 (char 0)''], 3)
   \<and> run (scenario listing_headless probe_json_ok)
        [''/usr/bin/etcdctl'', ''member'', ''list'', ''-w'', ''json'']
      = \<lparr>returncode = 0, stdout = headless_bytes, stderr = []\<rparr>
   \<and> json_loads (scenario listing_headless probe_json_ok) headless_bytes = Inr headless_json
   \<and> not_a_listing headless_json
   \<and> get_v3_members_list (scenario listing_headless probe_json_ok) ''/usr/bin/etcdctl''
      = Inl (KeyError ''members'')
   \<and> snd (main (scenario listing_headless probe_json_ok) None None) = 3
   \<and> (\<exists>rest. fst (main (scenario listing_headless probe_json_ok) None None)
               = [''UNKNOWN: '' @ rest])"
proof -
  let ?F = "scenario listing_failed probe_json_ok"
  let ?N = "scenario listing_not_json probe_json_ok"
  let ?H = "scenario listing_headless probe_json_ok"
  let ?p = "''/usr/bin/etcdctl''"
  let ?cmd = "[''/usr/bin/etcdctl'', ''member'', ''list'', ''-w'', ''json'']"
  let ?text = "''Error: context deadline exceeded'' @ [CHR 0x0A]"
  let ?ex = "JSONDecodeError ''Expecting value: line 1 column 1 (char 0)''"
  let ?line = "''Command ETCDCTL_API=3 /usr/bin/etcdctl member list -w json failed with code 1: Error: context deadline exceeded''"
  have f1: "which_etcdctl ?F = Some ?p"
    by (simp add: scenario_def etcdctl_def)
  have f2: "listing_failed = run ?F ?cmd"
    by (simp add: scenario_def)
  have f2': "run ?F ?cmd = \<lparr>returncode = 1, stdout = ?text, stderr = []\<rparr>"
    by (simp add: scenario_def listing_failed_def)
  have f3: "returncode listing_failed \<noteq> 0 \<and> utf8_decode ?F (stdout listing_failed) = Some ?text"
    by code_simp
  have f3': "utf8_decode ?F ?text = Some ?text"
    by code_simp
  have f4: "stripped_lines ?text = [''Error: context deadline exceeded'']"
    by code_simp
  have f5: "failed_with ?cmd (returncode listing_failed) ''Error: context deadline exceeded'' = ?line"
    by code_simp
  have n1: "which_etcdctl ?N = Some ?p"
    by (simp add: scenario_def etcdctl_def)
  have n2: "listing_not_json = run ?N ?cmd"
    by (simp add: scenario_def)
  have n2': "run ?N ?cmd
      = \<lparr>returncode = 0, stdout = ''etcdctl version: 3.3.25'' @ [CHR 0x0A], stderr = []\<rparr>"
    by (simp add: scenario_def listing_not_json_def)
  have n3': "json_loads ?N (''etcdctl version: 3.3.25'' @ [CHR 0x0A]) = Inl ?ex"
    by code_simp
  have n3: "returncode listing_not_json = 0 \<and> json_loads ?N (stdout listing_not_json) = Inl ?ex
            \<and> \<not> is_nagios ?ex"
    using n3' by (simp add: listing_not_json_def)
  have k1: "which_etcdctl ?H = Some ?p"
    by (simp add: scenario_def etcdctl_def)
  have k2: "listing_headless = run ?H ?cmd"
    by (simp add: scenario_def)
  have k2': "run ?H ?cmd = \<lparr>returncode = 0, stdout = headless_bytes, stderr = []\<rparr>"
    by (simp add: scenario_def listing_headless_def)
  have k3': "json_loads ?H headless_bytes = Inr headless_json"
    by code_simp
  have k4: "not_a_listing headless_json"
    by code_simp
  have k3: "returncode listing_headless = 0
            \<and> json_loads ?H (stdout listing_headless) = Inr headless_json
            \<and> not_a_listing headless_json"
    using k3' k4 by (simp add: listing_headless_def)
  have k5: "get_v3_members_list ?H ?p = Inl (KeyError ''members'')"
    by code_simp
  from listing_failures [OF f1 f2, of ?text None None] f3 f4 f5
  have a: "get_v3_members_list ?F ?p
           = Inl (NagiosCritical ?line (Some ''Error: context deadline exceeded''))
           \<and> snd (main ?F None None) = 2
           \<and> hd (fst (main ?F None None)) = ''CRITICAL: '' @ ?line"
    by simp
  from listing_failures [OF n1 n2, of _ _ _ ?ex] n3
  have b: "main ?N None None = ([''UNKNOWN: '' @ class_name ?ex @ ''. '' @ str_exn ?ex], 3)"
    by blast
  from listing_failures [OF k1 k2, of _ _ _ _ headless_json] k3
  have c: "snd (main ?H None None) = 3 \<and> (\<exists>rest. fst (main ?H None None) = [''UNKNOWN: '' @ rest])"
    by blast
  from a b c f1 f2' f3' n2' n3' k2' k3' k4 k5 show ?thesis
    by simp
qed

subsection \<open>The legacy line format\<close>

text \<open>
  The two matchers accept exactly the lines that the patterns describe: an endpoint of one
  or more characters other than a space, the literal text, and for the healthy form one
  or more characters, \<^verbatim>\<open>"took = "\<close> and a last run of one or more characters other
  than a space, for the unhealthy form a rest of one or more characters.
\<close>

lemma run_then_space:
  assumes "CHR '' '' \<notin> set e"
  shows "takeWhile (\<lambda>c. c \<noteq> CHR '' '') (e @ CHR '' '' # r) = e"
    and "dropWhile (\<lambda>c. c \<noteq> CHR '' '') (e @ CHR '' '' # r) = CHR '' '' # r"
  using assms by (induction e) auto

lemma last_run:
  assumes "CHR '' '' \<notin> set t"
  shows "rev (takeWhile (\<lambda>c. c \<noteq> CHR '' '') (rev (b @ CHR '' '' # t))) = t"
proof -
  have "rev (b @ CHR '' '' # t) = rev t @ CHR '' '' # rev b"
    by simp
  moreover from assms have "CHR '' '' \<notin> set (rev t)"
    by simp
  ultimately show ?thesis
    by (simp add: run_then_space(1))
qed

lemma suffix_run:
  "body = take (length body - length (rev (takeWhile P (rev body)))) body
          @ rev (takeWhile P (rev body))"
proof -
  have "rev body = takeWhile P (rev body) @ dropWhile P (rev body)"
    by simp
  then have "body = rev (dropWhile P (rev body)) @ rev (takeWhile P (rev body))"
    by (metis rev_append rev_rev_ident)
  moreover have "length (rev (dropWhile P (rev body)))
      = length body - length (rev (takeWhile P (rev body)))"
    by (metis calculation length_append add_diff_cancel_right')
  ultimately show ?thesis
    by (metis append_eq_conv_conj)
qed

lemma matcher_healthy_iff:
  "matcher_healthy entry = Some d \<longleftrightarrow>
   (\<exists>e mid t. entry = e @ '' is healthy:'' @ mid @ ''took = '' @ t
      \<and> e \<noteq> [] \<and> CHR '' '' \<notin> set e \<and> mid \<noteq> [] \<and> t \<noteq> [] \<and> CHR '' '' \<notin> set t
      \<and> d = [(''endpoint'', e), (''health'', ''healthy''), (''took'', t)])"
proof
  assume "matcher_healthy entry = Some d"
  define e where "e = takeWhile (\<lambda>c. c \<noteq> CHR '' '') entry"
  define a where "a = dropWhile (\<lambda>c. c \<noteq> CHR '' '') entry"
  define body where "body = drop (length '' is healthy:'') a"
  define t where "t = rev (takeWhile (\<lambda>c. c \<noteq> CHR '' '') (rev body))"
  define b where "b = take (length body - length t) body"
  define mid where "mid = take (length b - length ''took = '') b"
  from \<open>matcher_healthy entry = Some d\<close>
  have c: "e \<noteq> []" "take (length '' is healthy:'') a = '' is healthy:''" "t \<noteq> []"
    "length ''took = '' < length b" "drop (length b - length ''took = '') b = ''took = ''"
    and d: "d = [(''endpoint'', e), (''health'', ''healthy''), (''took'', t)]"
    unfolding matcher_healthy_def Let_def e_def a_def body_def t_def b_def
    by (simp_all split: if_splits)
  have 1: "entry = e @ a"
    by (simp add: e_def a_def)
  have 2: "a = '' is healthy:'' @ body"
    unfolding body_def using c(2) by (metis append_take_drop_id)
  have 3: "body = b @ t"
    unfolding b_def t_def by (rule suffix_run)
  have 4: "b = mid @ ''took = ''"
    unfolding mid_def using c(5) by (metis append_take_drop_id)
  from c(4) 4 have 5: "mid \<noteq> []"
    by auto
  have 6: "CHR '' '' \<notin> set e"
    unfolding e_def by (auto dest: set_takeWhileD)
  have 7: "CHR '' '' \<notin> set t"
    unfolding t_def by (auto dest: set_takeWhileD)
  from 1 2 3 4 have "entry = e @ '' is healthy:'' @ mid @ ''took = '' @ t"
    by simp
  with c(1,3) 5 6 7 d
  show "\<exists>e mid t. entry = e @ '' is healthy:'' @ mid @ ''took = '' @ t
      \<and> e \<noteq> [] \<and> CHR '' '' \<notin> set e \<and> mid \<noteq> [] \<and> t \<noteq> [] \<and> CHR '' '' \<notin> set t
      \<and> d = [(''endpoint'', e), (''health'', ''healthy''), (''took'', t)]"
    by blast
next
  assume "\<exists>e mid t. entry = e @ '' is healthy:'' @ mid @ ''took = '' @ t
      \<and> e \<noteq> [] \<and> CHR '' '' \<notin> set e \<and> mid \<noteq> [] \<and> t \<noteq> [] \<and> CHR '' '' \<notin> set t
      \<and> d = [(''endpoint'', e), (''health'', ''healthy''), (''took'', t)]"
  then obtain e mid t where en: "entry = e @ CHR '' '' # (''is healthy:'' @ mid @ ''took = '' @ t)"
    and ne: "e \<noteq> []" "mid \<noteq> []" "t \<noteq> []"
    and ns: "CHR '' '' \<notin> set e" "CHR '' '' \<notin> set t"
    and d: "d = [(''endpoint'', e), (''health'', ''healthy''), (''took'', t)]"
    by auto
  define B where "B = mid @ ''took = '' @ t"
  have tk: "takeWhile (\<lambda>c. c \<noteq> CHR '' '') entry = e"
    unfolding en using ns(1) by (rule run_then_space(1))
  have dr: "dropWhile (\<lambda>c. c \<noteq> CHR '' '') entry = '' is healthy:'' @ B"
    unfolding en B_def using run_then_space(2) [OF ns(1)] by simp
  have body: "B = (mid @ ''took ='') @ CHR '' '' # t"
    by (simp add: B_def)
  have lr: "rev (takeWhile (\<lambda>c. c \<noteq> CHR '' '') (rev B)) = t"
    unfolding body using ns(2) by (rule last_run)
  have bd: "drop (length '' is healthy:'') ('' is healthy:'' @ B) = B"
    by simp
  have bt: "take (length B - length t) B = mid @ ''took = ''"
    by (simp add: B_def)
  have tl: "drop (length (mid @ ''took = '') - length ''took = '') (mid @ ''took = '') = ''took = ''"
    by simp
  have ln: "length ''took = '' < length (mid @ ''took = '')"
    using ne(2) by simp
  have tp: "take (length '' is healthy:'') ('' is healthy:'' @ B) = '' is healthy:''"
    by simp
  show "matcher_healthy entry = Some d"
    unfolding matcher_healthy_def Let_def tk dr bd lr bt tp
    using ne(1,3) d tl ln by simp
qed

lemma matcher_unhealthy_iff:
  "matcher_unhealthy entry = Some d \<longleftrightarrow>
   (\<exists>e err. entry = e @ '' is unhealthy: '' @ err
      \<and> e \<noteq> [] \<and> CHR '' '' \<notin> set e \<and> err \<noteq> []
      \<and> d = [(''endpoint'', e), (''health'', ''unhealthy''), (''error'', err)])"
proof
  assume "matcher_unhealthy entry = Some d"
  define e where "e = takeWhile (\<lambda>c. c \<noteq> CHR '' '') entry"
  define a where "a = dropWhile (\<lambda>c. c \<noteq> CHR '' '') entry"
  define err where "err = drop (length '' is unhealthy: '') a"
  from \<open>matcher_unhealthy entry = Some d\<close>
  have c: "e \<noteq> []" "take (length '' is unhealthy: '') a = '' is unhealthy: ''" "err \<noteq> []"
    and d: "d = [(''endpoint'', e), (''health'', ''unhealthy''), (''error'', err)]"
    unfolding matcher_unhealthy_def Let_def e_def a_def err_def
    by (simp_all split: if_splits)
  have 1: "entry = e @ a"
    by (simp add: e_def a_def)
  have 2: "a = '' is unhealthy: '' @ err"
    unfolding err_def using c(2) by (metis append_take_drop_id)
  have 6: "CHR '' '' \<notin> set e"
    unfolding e_def by (auto dest: set_takeWhileD)
  from 1 2 have "entry = e @ '' is unhealthy: '' @ err"
    by simp
  with c(1,3) 6 d
  show "\<exists>e err. entry = e @ '' is unhealthy: '' @ err
      \<and> e \<noteq> [] \<and> CHR '' '' \<notin> set e \<and> err \<noteq> []
      \<and> d = [(''endpoint'', e), (''health'', ''unhealthy''), (''error'', err)]"
    by blast
next
  assume "\<exists>e err. entry = e @ '' is unhealthy: '' @ err
      \<and> e \<noteq> [] \<and> CHR '' '' \<notin> set e \<and> err \<noteq> []
      \<and> d = [(''endpoint'', e), (''health'', ''unhealthy''), (''error'', err)]"
  then obtain e err where en: "entry = e @ CHR '' '' # (''is unhealthy: '' @ err)"
    and ne: "e \<noteq> []" "err \<noteq> []"
    and ns: "CHR '' '' \<notin> set e"
    and d: "d = [(''endpoint'', e), (''health'', ''unhealthy''), (''error'', err)]"
    by auto
  have tk: "takeWhile (\<lambda>c. c \<noteq> CHR '' '') entry = e"
    unfolding en using ns by (rule run_then_space(1))
  have dr: "dropWhile (\<lambda>c. c \<noteq> CHR '' '') entry = '' is unhealthy: '' @ err"
    unfolding en using run_then_space(2) [OF ns] by simp
  show "matcher_unhealthy entry = Some d"
    unfolding matcher_unhealthy_def Let_def tk dr
    using ne d by simp
qed

lemma matcher_healthy_dict:
  "matcher_healthy entry = Some d \<Longrightarrow>
   \<exists>e t. d = [(''endpoint'', e), (''health'', ''healthy''), (''took'', t)]"
  by (auto simp: matcher_healthy_def Let_def split: if_splits)

lemma matcher_unhealthy_dict:
  "matcher_unhealthy entry = Some d \<Longrightarrow>
   \<exists>e t. d = [(''endpoint'', e), (''health'', ''unhealthy''), (''error'', t)]"
  by (auto simp: matcher_unhealthy_def Let_def split: if_splits)

text \<open>A line of the healthy form passes the three assertions and stops at the name \<^verbatim>\<open>error\<close>.\<close>

lemma legacy_entry_healthy:
  "matcher_healthy entry = Some d \<Longrightarrow>
   legacy_entry entry = Inl (NameError ''name 'error' is not defined'')"
  by (auto simp: legacy_entry_def global_error_def dest!: matcher_healthy_dict)

text \<open>
  A line of the unhealthy form has no group \<^verbatim>\<open>took\<close> and fails the third assertion.
\<close>

lemma legacy_entry_unhealthy:
  "matcher_healthy entry = None \<Longrightarrow> matcher_unhealthy entry = Some d \<Longrightarrow>
   legacy_entry entry
   = Inl (AssertionError (''Old etcd without JSON support but unparsable line '' @ entry))"
  by (auto simp: legacy_entry_def dest!: matcher_unhealthy_dict)

lemma legacy_entry_neither:
  "matcher_healthy entry = None \<Longrightarrow> matcher_unhealthy entry = None \<Longrightarrow>
   legacy_entry entry
   = Inl (AssertionError (''Old etcd without JSON support but unparsable line '' @ entry))"
  by (simp add: legacy_entry_def)

lemma legacy_entry_raises:
  "legacy_entry entry = Inl (NameError ''name 'error' is not defined'')
   \<or> legacy_entry entry
      = Inl (AssertionError (''Old etcd without JSON support but unparsable line '' @ entry))"
  by (cases "matcher_healthy entry"; cases "matcher_unhealthy entry")
     (simp_all add: legacy_entry_healthy legacy_entry_unhealthy legacy_entry_neither)

lemma legacy_entries_first:
  "legacy_entry entry = Inl ex \<Longrightarrow> legacy_entries (entry # entries) = Inl ex"
  by simp

text \<open>
  Claim C1 (the code departs from it). On the two lines of scenario D the legacy parser
  returns no observation: the first line has the healthy form and raises
  \<^verbatim>\<open>NameError\<close>, which ends the loop and the script (UNKNOWN, status 3); the second
  line, read alone, has the unhealthy form and fails the assertion on \<^verbatim>\<open>took\<close>.
\<close>

theorem legacy_scenario_d_raises:
  "splitlines scenario_d_output
   = [''10.0.0.1:2380 is healthy: took = 3ms'',
      ''10.0.0.2:2380 is unhealthy: context deadline exceeded'']
   \<and> matcher_healthy ''10.0.0.1:2380 is healthy: took = 3ms''
      = Some [(''endpoint'', ''10.0.0.1:2380''), (''health'', ''healthy''), (''took'', ''3ms'')]
   \<and> matcher_unhealthy ''10.0.0.2:2380 is unhealthy: context deadline exceeded''
      = Some [(''endpoint'', ''10.0.0.2:2380''), (''health'', ''unhealthy''),
              (''error'', ''context deadline exceeded'')]
   \<and> legacy_entries (splitlines scenario_d_output) = Inl (NameError ''name 'error' is not defined'')
   \<and> legacy_entry ''10.0.0.1:2380 is healthy: took = 3ms''
      = Inl (NameError ''name 'error' is not defined'')
   \<and> legacy_entry ''10.0.0.2:2380 is unhealthy: context deadline exceeded''
      = Inl (AssertionError ''Old etcd without JSON support but unparsable line 10.0.0.2:2380 is unhealthy: context deadline exceeded'')
   \<and> get_v3_members_health (scenario listing_ok probe_scenario_d) etcdctl
      = Inl (NameError ''name 'error' is not defined'')
   \<and> main (scenario listing_ok probe_scenario_d) None None
      = ([''UNKNOWN: NameError. name 'error' is not defined''], 3)"
  by code_simp

text \<open>
  Claim C7. When the output of the probe is not JSON and is read in the legacy format, a
  line that matches neither pattern makes the whole run fail: \<^verbatim>\<open>get_v3_members_health\<close>
  raises an exception that is not a Nagios state and returns no health record, and the
  script prints UNKNOWN and ends with status 3.
\<close>

theorem legacy_batch_rejected:
  assumes "which_etcdctl W = Some p"
    and "get_v3_members_list W p = Inr members"
    and "endpoint_all_members members = Inr endpoints"
    and "res = run W (health_cmd p endpoints)"
    and "json_loads W (stdout res) = Inl (JSONDecodeError msg)"
    and "utf8_decode W (stdout res) = Some text"
    and "line \<in> set (splitlines text)"
    and "matcher_healthy line = None"
    and "matcher_unhealthy line = None"
  shows "\<exists>ex. get_v3_members_health W p = Inl ex \<and> \<not> is_nagios ex
              \<and> main W warning critical = ([''UNKNOWN: '' @ class_name ex @ ''. '' @ str_exn ex], 3)"
proof -
  from assms(7) obtain entry entries where sp: "splitlines text = entry # entries"
    by (cases "splitlines text") auto
  define ex where "ex = (case legacy_entry entry of Inl x \<Rightarrow> x)"
  from legacy_entry_raises [of entry] have le: "legacy_entry entry = Inl ex" and nn: "\<not> is_nagios ex"
    by (auto simp: ex_def)
  from assms(5,6) sp le have "probe_parsed W (health_cmd p endpoints) res = Inl ex"
    by (simp add: probe_parsed_def legacy_entries_first)
  with assms(2-4) have h: "get_v3_members_health W p = Inl ex"
    by (simp add: get_v3_members_health_def Let_def)
  with assms(1) have "main W warning critical = exit_with ex"
    by (simp add: main_def check_cluster_members_def)
  with nn h show ?thesis
    by (simp add: exit_with_not_nagios)
qed

theorem legacy_batch_rejected_witness:
  "which_etcdctl (scenario listing_ok probe_garbled) = Some etcdctl
   \<and> get_v3_members_list (scenario listing_ok probe_garbled) etcdctl = Inr two_members
   \<and> endpoint_all_members two_members = Inr [''10.0.0.1:2380'', ''10.0.0.2:2380'']
   \<and> probe_garbled
      = run (scenario listing_ok probe_garbled)
          (health_cmd etcdctl [''10.0.0.1:2380'', ''10.0.0.2:2380''])
   \<and> json_loads (scenario listing_ok probe_garbled) (stdout probe_garbled)
      = Inl (JSONDecodeError ''Expecting value: line 1 column 1 (char 0)'')
   \<and> utf8_decode (scenario listing_ok probe_garbled) (stdout probe_garbled) = Some garbled_output
   \<and> ''10.0.0.1:2380 looks fine'' \<in> set (splitlines garbled_output)
   \<and> matcher_healthy ''10.0.0.1:2380 looks fine'' = None
   \<and> matcher_unhealthy ''10.0.0.1:2380 looks fine'' = None
   \<and> (\<exists>ex. get_v3_members_health (scenario listing_ok probe_garbled) etcdctl = Inl ex
            \<and> \<not> is_nagios ex
            \<and> main (scenario listing_ok probe_garbled) (Some 1) (Some 2)
               = ([''UNKNOWN: '' @ class_name ex @ ''. '' @ str_exn ex], 3))"
proof -
  let ?W = "scenario listing_ok probe_garbled"
  let ?eps = "[''10.0.0.1:2380'', ''10.0.0.2:2380'']"
  have h1: "which_etcdctl ?W = Some etcdctl"
    by (simp add: scenario_def)
  have h2: "get_v3_members_list ?W etcdctl = Inr two_members"
    by code_simp
  have h3: "endpoint_all_members two_members = Inr ?eps"
    by code_simp
  have h4: "probe_garbled = run ?W (health_cmd etcdctl ?eps)"
    by code_simp
  have h5: "json_loads ?W (stdout probe_garbled)
            = Inl (JSONDecodeError ''Expecting value: line 1 column 1 (char 0)'')"
    by code_simp
  have h6: "utf8_decode ?W (stdout probe_garbled) = Some garbled_output"
    by code_simp
  have h7: "''10.0.0.1:2380 looks fine'' \<in> set (splitlines garbled_output)"
    by code_simp
  have h8: "matcher_healthy ''10.0.0.1:2380 looks fine'' = None"
    by code_simp
  have h9: "matcher_unhealthy ''10.0.0.1:2380 looks fine'' = None"
    by code_simp
  from legacy_batch_rejected [OF h1 h2 h3 h4 h5 h6 h7 h8 h9, of "Some 1" "Some 2"]
    h1 h2 h3 h4 h5 h6 h7 h8 h9
  show ?thesis
    by blast
qed

subsection \<open>The exit status of the probe\<close>

text \<open>
  Claim C2, as stated, fails: a probe that prints JSON and exits with status 1 does not
  end the run. The handler of \<^verbatim>\<open>CalledProcessError\<close> parses the output again, the
  records are reconciled and evaluated, and without thresholds the script prints OK and
  ends with status 0.
\<close>

theorem nonzero_exit_counterexample:
  "run (scenario listing_ok probe_json_exit1)
     (health_cmd etcdctl [''10.0.0.1:2380'', ''10.0.0.2:2380'']) = probe_json_exit1
   \<and> json_loads (scenario listing_ok probe_json_exit1) (stdout probe_json_exit1) = Inr health_json
   \<and> returncode probe_json_exit1 = 1
   \<and> get_v3_members_health (scenario listing_ok probe_json_exit1) etcdctl
      = Inr [\<lparr>member_id = JInt 1, name = ''etcd1'', peer_urls = [''10.0.0.1:2380''],
              client_urls = JArr [JStr ''10.0.0.1:2379''], health = JBool True,
              took = JStr ''3ms'', error = JNull\<rparr>,
             \<lparr>member_id = JInt 2, name = ''etcd2'', peer_urls = [''10.0.0.2:2380''],
              client_urls = JArr [JStr ''10.0.0.2:2379''], health = JBool False,
              took = JStr ''5s'', error = JStr ''context deadline exceeded''\<rparr>]
   \<and> main (scenario listing_ok probe_json_exit1) None None
      = ([''OK: 1/2 healthy nodes: etcd2: context deadline exceeded'',
          ''etcd1: healthy: took 3ms'' @ [CHR 0x0A]
          @ ''etcd2: dead: took 5s: context deadline exceeded''], 0)"
  by code_simp

text \<open>
  Claim C2, amended. For every probe run whose output parses as JSON and whose exit
  status is not zero, the exit status is checked, and the handler of the error it raises
  decodes both output streams and parses the same output again: when both streams decode,
  the run goes on to reconciliation and evaluation with the parsed records, as it does
  for exit status zero; the non-zero status alone is not fatal.
\<close>

theorem nonzero_exit_with_json_proceeds:
  assumes "get_v3_members_list W p = Inr members"
    and "endpoint_all_members members = Inr endpoints"
    and "res = run W (health_cmd p endpoints)"
    and "json_loads W (stdout res) = Inr parsed"
    and "returncode res \<noteq> 0"
    and "utf8_decode W (stdout res) = Some out_text"
    and "utf8_decode W (stderr res) = Some err_text"
  shows "probe_parsed W (health_cmd p endpoints) res = Inr parsed
         \<and> probe_parsed W (health_cmd p endpoints) (res\<lparr>returncode := 0\<rparr>) = Inr parsed
         \<and> get_v3_members_health W p = andThen (iter_json parsed) (reconcile members)
         \<and> check_cluster_members W p warning critical
           = (case andThen (iter_json parsed) (reconcile members) of
                Inl e \<Rightarrow> e
              | Inr health_records \<Rightarrow> raise_for_thresholds health_records warning critical)"
proof -
  from assms(4-7) have a: "probe_parsed W (health_cmd p endpoints) res = Inr parsed"
    by (simp add: probe_parsed_def Let_def)
  from assms(4) have b: "probe_parsed W (health_cmd p endpoints) (res\<lparr>returncode := 0\<rparr>) = Inr parsed"
    by (simp add: probe_parsed_def)
  from a assms(1-3) have c: "get_v3_members_health W p = andThen (iter_json parsed) (reconcile members)"
    by (simp add: get_v3_members_health_def Let_def)
  from a b c show ?thesis
    by (simp add: check_cluster_members_def)
qed

theorem nonzero_exit_with_json_proceeds_witness:
  "get_v3_members_list (scenario listing_ok probe_json_exit1) etcdctl = Inr two_members
   \<and> endpoint_all_members two_members = Inr [''10.0.0.1:2380'', ''10.0.0.2:2380'']
   \<and> probe_json_exit1
      = run (scenario listing_ok probe_json_exit1)
          (health_cmd etcdctl [''10.0.0.1:2380'', ''10.0.0.2:2380''])
   \<and> json_loads (scenario listing_ok probe_json_exit1) (stdout probe_json_exit1) = Inr health_json
   \<and> returncode probe_json_exit1 \<noteq> 0
   \<and> utf8_decode (scenario listing_ok probe_json_exit1) (stdout probe_json_exit1) = Some health_bytes
   \<and> utf8_decode (scenario listing_ok probe_json_exit1) (stderr probe_json_exit1)
      = Some (''Error: unhealthy cluster'' @ [CHR 0x0A])
   \<and> probe_parsed (scenario listing_ok probe_json_exit1)
        (health_cmd etcdctl [''10.0.0.1:2380'', ''10.0.0.2:2380'']) probe_json_exit1
      = Inr health_json
   \<and> get_v3_members_health (scenario listing_ok probe_json_exit1) etcdctl
      = andThen (iter_json health_json) (reconcile two_members)"
proof -
  let ?W = "scenario listing_ok probe_json_exit1"
  let ?eps = "[''10.0.0.1:2380'', ''10.0.0.2:2380'']"
  have h1: "get_v3_members_list ?W etcdctl = Inr two_members"
    by code_simp
  have h2: "endpoint_all_members two_members = Inr ?eps"
    by code_simp
  have h3: "probe_json_exit1 = run ?W (health_cmd etcdctl ?eps)"
    by code_simp
  have h4: "json_loads ?W (stdout probe_json_exit1) = Inr health_json"
    by code_simp
  have h5: "returncode probe_json_exit1 \<noteq> 0"
    by code_simp
  have h6: "utf8_decode ?W (stdout probe_json_exit1) = Some health_bytes"
    by code_simp
  have h7: "utf8_decode ?W (stderr probe_json_exit1) = Some (''Error: unhealthy cluster'' @ [CHR 0x0A])"
    by code_simp
  from nonzero_exit_with_json_proceeds [OF h1 h2 h3 h4 h5 h6 h7] h1 h2 h3 h4 h5 h6 h7
  show ?thesis
    by blast
qed

subsection \<open>Reconciliation\<close>

lemma matchings_of_not_nagios: "matchings_of pm ms = Inl e \<Longrightarrow> \<not> is_nagios e"
  by (induction ms) (auto split: sum.splits dest: getitem_not_nagios)

text \<open>The comprehension keeps the members that advertise the endpoint, in their order.\<close>

lemma matchings_of_endpoint:
  "getitem pm ''endpoint'' = Inr (JStr e) \<Longrightarrow>
   matchings_of pm ms = Inr (filter (\<lambda>x. e \<in> set (peer_urls x)) ms)"
  by (induction ms) simp_all

lemma reconcile_one_mismatch:
  assumes "getitem pm ''endpoint'' = Inr (JStr e)"
    and "length (filter (\<lambda>x. e \<in> set (peer_urls x)) ms) \<noteq> 1"
  shows "reconcile_one ms pm
         = Inl (AssertionError (''Unable to find node definition matching endpoint '' @ e))"
  using assms by (simp add: reconcile_one_def matchings_of_endpoint)

lemma get_or_none_not_nagios: "get_or_none x k = Inl e \<Longrightarrow> \<not> is_nagios e"
  by (cases x) auto

lemma reconcile_one_not_nagios:
  assumes "reconcile_one ms pm = Inl e"
  shows "\<not> is_nagios e"
proof -
  from assms consider
      (m) "matchings_of pm ms = Inl e"
    | (a) "\<exists>s. e = AssertionError s"
    | (g) "\<exists>k. getitem pm k = Inl e"
    | (o) "get_or_none pm ''error'' = Inl e"
    unfolding reconcile_one_def Let_def
    by (fastforce simp: andThen_eq_Inl split: if_splits)
  then show ?thesis
    by cases (auto dest: matchings_of_not_nagios getitem_not_nagios get_or_none_not_nagios)
qed

lemma reconcile_not_nagios: "reconcile ms pms = Inl e \<Longrightarrow> \<not> is_nagios e"
  by (induction pms arbitrary: e) (auto split: sum.splits dest: reconcile_one_not_nagios)

text \<open>The loop stops at the first entry that raises: later entries cannot repair it.\<close>

lemma reconcile_fails:
  "pm \<in> set pms \<Longrightarrow> reconcile_one ms pm = Inl e \<Longrightarrow> \<exists>e'. reconcile ms pms = Inl e'"
  by (induction pms) (auto split: sum.splits)

text \<open>
  Claim C6. If, for some entry of the parsed probe output, the number of members whose
  \<^verbatim>\<open>peer_urls\<close> contain the entry's endpoint is not one (none, or two or more), the
  turn of the loop for that entry raises \<^verbatim>\<open>AssertionError\<close>; the run returns no health
  records, the exception it ends with is not a Nagios state, and the script prints
  UNKNOWN and ends with status 3, whatever the thresholds.
\<close>

theorem reconcile_needs_one_match:
  assumes "which_etcdctl W = Some p"
    and "get_v3_members_list W p = Inr members"
    and "endpoint_all_members members = Inr endpoints"
    and "probe_parsed W (health_cmd p endpoints) (run W (health_cmd p endpoints)) = Inr parsed"
    and "iter_json parsed = Inr entries"
    and "entry \<in> set entries"
    and "getitem entry ''endpoint'' = Inr (JStr e)"
    and "length (filter (\<lambda>x. e \<in> set (peer_urls x)) members) \<noteq> 1"
  shows "reconcile_one members entry
         = Inl (AssertionError (''Unable to find node definition matching endpoint '' @ e))
         \<and> (\<exists>ex. get_v3_members_health W p = Inl ex \<and> \<not> is_nagios ex
               \<and> main W warning critical
                  = ([''UNKNOWN: '' @ class_name ex @ ''. '' @ str_exn ex], 3))"
proof -
  from assms(7,8) have one: "reconcile_one members entry
      = Inl (AssertionError (''Unable to find node definition matching endpoint '' @ e))"
    by (rule reconcile_one_mismatch)
  with assms(6) obtain ex where ex: "reconcile members entries = Inl ex"
    using reconcile_fails by blast
  then have nn: "\<not> is_nagios ex"
    by (rule reconcile_not_nagios)
  from assms(2-5) ex have h: "get_v3_members_health W p = Inl ex"
    by (simp add: get_v3_members_health_def Let_def)
  with assms(1) have "main W warning critical = exit_with ex"
    by (simp add: main_def check_cluster_members_def)
  with nn h one show ?thesis
    by (simp add: exit_with_not_nagios)
qed

theorem reconcile_needs_one_match_witness:
  "which_etcdctl (scenario listing_shared probe_json_ok) = Some etcdctl
   \<and> get_v3_members_list (scenario listing_shared probe_json_ok) etcdctl = Inr shared_members
   \<and> endpoint_all_members shared_members = Inr [''10.0.0.1:2380'', ''10.0.0.1:2380'']
   \<and> probe_parsed (scenario listing_shared probe_json_ok)
        (health_cmd etcdctl [''10.0.0.1:2380'', ''10.0.0.1:2380''])
        (run (scenario listing_shared probe_json_ok)
           (health_cmd etcdctl [''10.0.0.1:2380'', ''10.0.0.1:2380''])) = Inr health_json
   \<and> length (filter (\<lambda>x. ''10.0.0.1:2380'' \<in> set (peer_urls x)) shared_members) = 2
   \<and> main (scenario listing_shared probe_json_ok) None None
      = ([''UNKNOWN: AssertionError. Unable to find node definition matching endpoint 10.0.0.1:2380''], 3)
   \<and> which_etcdctl (scenario listing_ok probe_stray) = Some etcdctl
   \<and> get_v3_members_list (scenario listing_ok probe_stray) etcdctl = Inr two_members
   \<and> endpoint_all_members two_members = Inr [''10.0.0.1:2380'', ''10.0.0.2:2380'']
   \<and> probe_parsed (scenario listing_ok probe_stray)
        (health_cmd etcdctl [''10.0.0.1:2380'', ''10.0.0.2:2380''])
        (run (scenario listing_ok probe_stray)
           (health_cmd etcdctl [''10.0.0.1:2380'', ''10.0.0.2:2380''])) = Inr stray_json
   \<and> length (filter (\<lambda>x. ''10.0.0.9:2380'' \<in> set (peer_urls x)) two_members) = 0
   \<and> (\<exists>ex. get_v3_members_health (scenario listing_ok probe_stray) etcdctl = Inl ex
            \<and> main (scenario listing_ok probe_stray) (Some 1) (Some 2)
               = ([''UNKNOWN: '' @ class_name ex @ ''. '' @ str_exn ex], 3))"
proof -
  let ?S = "scenario listing_shared probe_json_ok"
  let ?seps = "[''10.0.0.1:2380'', ''10.0.0.1:2380'']"
  let ?sentry = "JObj [(''endpoint'', JStr ''10.0.0.1:2380''), (''health'', JBool True),
                       (''took'', JStr ''3ms'')]"
  let ?sentries = "[?sentry,
                    JObj [(''endpoint'', JStr ''10.0.0.2:2380''), (''health'', JBool False),
                          (''took'', JStr ''5s''), (''error'', JStr ''context deadline exceeded'')]]"
  let ?T = "scenario listing_ok probe_stray"
  let ?teps = "[''10.0.0.1:2380'', ''10.0.0.2:2380'']"
  let ?tentry = "JObj [(''endpoint'', JStr ''10.0.0.9:2380''), (''health'', JBool True),
                       (''took'', JStr ''3ms'')]"
  have s1: "which_etcdctl ?S = Some etcdctl"
    by (simp add: scenario_def)
  have s2: "get_v3_members_list ?S etcdctl = Inr shared_members"
    by code_simp
  have s3: "endpoint_all_members shared_members = Inr ?seps"
    by code_simp
  have s4: "probe_parsed ?S (health_cmd etcdctl ?seps) (run ?S (health_cmd etcdctl ?seps))
            = Inr health_json"
    by code_simp
  have s5: "iter_json health_json = Inr ?sentries"
    by (simp add: health_json_def)
  have s6: "?sentry \<in> set ?sentries"
    by simp
  have s7: "getitem ?sentry ''endpoint'' = Inr (JStr ''10.0.0.1:2380'')"
    by simp
  have s8': "length (filter (\<lambda>x. ''10.0.0.1:2380'' \<in> set (peer_urls x)) shared_members) = 2"
    by (simp add: shared_members_def)
  then have s8: "length (filter (\<lambda>x. ''10.0.0.1:2380'' \<in> set (peer_urls x)) shared_members) \<noteq> 1"
    by simp
  have t1: "which_etcdctl ?T = Some etcdctl"
    by (simp add: scenario_def)
  have t2: "get_v3_members_list ?T etcdctl = Inr two_members"
    by code_simp
  have t3: "endpoint_all_members two_members = Inr ?teps"
    by code_simp
  have t4: "probe_parsed ?T (health_cmd etcdctl ?teps) (run ?T (health_cmd etcdctl ?teps))
            = Inr stray_json"
    by code_simp
  have t5: "iter_json stray_json = Inr [?tentry]"
    by (simp add: stray_json_def)
  have t6: "?tentry \<in> set [?tentry]"
    by simp
  have t7: "getitem ?tentry ''endpoint'' = Inr (JStr ''10.0.0.9:2380'')"
    by simp
  have t8': "length (filter (\<lambda>x. ''10.0.0.9:2380'' \<in> set (peer_urls x)) two_members) = 0"
    by (simp add: two_members_def)
  then have t8: "length (filter (\<lambda>x. ''10.0.0.9:2380'' \<in> set (peer_urls x)) two_members) \<noteq> 1"
    by simp
  have sm: "main ?S None None
      = ([''UNKNOWN: AssertionError. Unable to find node definition matching endpoint 10.0.0.1:2380''], 3)"
    by code_simp
  note a = reconcile_needs_one_match [OF s1 s2 s3 s4 s5 s6 s7 s8, of None None]
  note b = reconcile_needs_one_match [OF t1 t2 t3 t4 t5 t6 t7 t8, of "Some 1" "Some 2"]
  from a b s1 s2 s3 s4 s8' sm t1 t2 t3 t4 t8' show ?thesis
    by blast
qed

subsection \<open>The threshold rules\<close>

text \<open>
  Claim C3. The critical rule is tested before the warning rule: whenever the critical
  threshold is set and the number of dead members reaches it, \<^verbatim>\<open>NagiosCritical\<close> is
  raised (status 2), whatever the warning threshold is and whether or not the count
  reaches it too. The instance below has three dead members, warning 1 and critical 2.
\<close>

theorem critical_checked_first:
  assumes "c \<le> int (length (dead_of members))"
  shows "\<exists>m ml. raise_for_thresholds members warning (Some c) = NagiosCritical m ml
                  \<and> snd (exit_with (raise_for_thresholds members warning (Some c))) = 2"
  using assms by (simp add: raise_for_thresholds_def dead_of_def Let_def)

theorem critical_checked_first_witness:
  "(2::int) \<le> int (length (dead_of [dead_node ''a'', dead_node ''b'', dead_node ''c'']))
   \<and> (1::int) \<le> int (length (dead_of [dead_node ''a'', dead_node ''b'', dead_node ''c'']))
   \<and> length (dead_of [dead_node ''a'', dead_node ''b'', dead_node ''c'']) = 3
   \<and> (\<exists>m ml. raise_for_thresholds [dead_node ''a'', dead_node ''b'', dead_node ''c''] (Some 1) (Some 2)
                 = NagiosCritical m ml
                \<and> snd (exit_with (raise_for_thresholds [dead_node ''a'', dead_node ''b'', dead_node ''c'']
                                     (Some 1) (Some 2))) = 2)"
proof -
  have n: "length (dead_of [dead_node ''a'', dead_node ''b'', dead_node ''c'']) = 3"
    by (simp add: dead_of_def dead_node_def)
  then have h: "(2::int) \<le> int (length (dead_of [dead_node ''a'', dead_node ''b'', dead_node ''c'']))"
    by simp
  from critical_checked_first [OF h, of "Some 1"] h n show ?thesis
    by simp
qed

text \<open>
  Claim C4. For fixed thresholds (each set or not), a list of health records with at
  least as many dead members as another gets a verdict that is at least as severe, on the
  scale OK (status 0), WARNING (1), CRITICAL (2).
\<close>

theorem verdict_monotone:
  assumes "length (dead_of members1) \<le> length (dead_of members2)"
  shows "snd (exit_with (raise_for_thresholds members1 warning critical))
         \<le> snd (exit_with (raise_for_thresholds members2 warning critical))"
  using assms by (auto simp add: raise_for_thresholds_def dead_of_def Let_def)

theorem verdict_monotone_witness:
  "length (dead_of [live_node ''a'', dead_node ''b'']) \<le> length (dead_of [dead_node ''a'', dead_node ''b''])
   \<and> snd (exit_with (raise_for_thresholds [live_node ''a'', dead_node ''b''] (Some 1) (Some 2))) = 1
   \<and> snd (exit_with (raise_for_thresholds [dead_node ''a'', dead_node ''b''] (Some 1) (Some 2))) = 2
   \<and> snd (exit_with (raise_for_thresholds [live_node ''a'', dead_node ''b''] (Some 1) (Some 2)))
     \<le> snd (exit_with (raise_for_thresholds [dead_node ''a'', dead_node ''b''] (Some 1) (Some 2)))"
proof -
  have h: "length (dead_of [live_node ''a'', dead_node ''b''])
           \<le> length (dead_of [dead_node ''a'', dead_node ''b''])"
    by (simp add: dead_of_def dead_node_def live_node_def)
  have a: "snd (exit_with (raise_for_thresholds [live_node ''a'', dead_node ''b''] (Some 1) (Some 2))) = 1"
    by (simp add: raise_for_thresholds_def dead_node_def live_node_def Let_def)
  have b: "snd (exit_with (raise_for_thresholds [dead_node ''a'', dead_node ''b''] (Some 1) (Some 2))) = 2"
    by (simp add: raise_for_thresholds_def dead_node_def live_node_def Let_def)
  from verdict_monotone [OF h, of "Some 1" "Some 2"] h a b show ?thesis
    by simp
qed

text \<open>
  Claim C5. If neither rule fires (each threshold is unset, or the number of dead members
  is below it), \<^verbatim>\<open>NagiosOk\<close> is raised (status 0), also when there are dead members. The
  instance below has a dead member and no threshold.
\<close>

theorem ok_when_no_rule_fires:
  assumes "critical = None \<or> int (length (dead_of members)) < the critical"
    and "warning = None \<or> int (length (dead_of members)) < the warning"
  shows "\<exists>m ml. raise_for_thresholds members warning critical = NagiosOk m ml
                  \<and> snd (exit_with (raise_for_thresholds members warning critical)) = 0"
  using assms by (auto simp add: raise_for_thresholds_def dead_of_def Let_def)

theorem ok_when_no_rule_fires_witness:
  "dead_of [live_node ''a'', dead_node ''b''] = [dead_node ''b'']
   \<and> raise_for_thresholds [live_node ''a'', dead_node ''b''] None None
     = NagiosOk ''1/2 healthy nodes: b: context deadline exceeded''
         (Some (''a: healthy: took 3ms'' @ [CHR 0x0A] @ ''b: dead: took 5s: context deadline exceeded''))
   \<and> (\<exists>m ml. raise_for_thresholds [live_node ''a'', dead_node ''b''] None None = NagiosOk m ml
              \<and> snd (exit_with (raise_for_thresholds [live_node ''a'', dead_node ''b''] None None)) = 0)"
proof -
  have h1: "(None :: int option) = None
            \<or> int (length (dead_of [live_node ''a'', dead_node ''b''])) < the None"
    by simp
  have d: "dead_of [live_node ''a'', dead_node ''b''] = [dead_node ''b'']"
    by (simp add: dead_of_def dead_node_def live_node_def)
  have r: "raise_for_thresholds [live_node ''a'', dead_node ''b''] None None
     = NagiosOk ''1/2 healthy nodes: b: context deadline exceeded''
         (Some (''a: healthy: took 3ms'' @ [CHR 0x0A] @ ''b: dead: took 5s: context deadline exceeded''))"
    by code_simp
  from ok_when_no_rule_fires [OF h1 h1] d r show ?thesis
    by simp
qed

text \<open>
  Claim C10. A threshold of zero always fires, since the number of dead members is never
  below it: with the critical threshold 0 \<^verbatim>\<open>NagiosCritical\<close> is raised (status 2)
  whatever the warning threshold, and with the warning threshold 0 and no critical
  threshold \<^verbatim>\<open>NagiosWarning\<close> is raised (status 1), for every list of health records,
  also when all members are healthy.
\<close>

theorem zero_threshold_fires:
  "(\<exists>m ml. raise_for_thresholds members warning (Some 0) = NagiosCritical m ml)
   \<and> snd (exit_with (raise_for_thresholds members warning (Some 0))) = 2
   \<and> (\<exists>m ml. raise_for_thresholds members (Some 0) None = NagiosWarning m ml)
   \<and> snd (exit_with (raise_for_thresholds members (Some 0) None)) = 1"
  by (simp add: raise_for_thresholds_def Let_def)

end
